theory Spec2Isabelle
  imports Main "HOL-Library.Sublist"
begin

section \<open>Go string helpers used by the resolver\<close>

text \<open>
  Go strings are byte sequences; they are modelled as \<open>string\<close> (a list of 8-bit
  characters). The helpers below are the functions of package \<open>strings\<close> that
  \<open>provider_openai.go\<close> calls.
\<close>

definition HasPrefix :: "string \<Rightarrow> string \<Rightarrow> bool" where
  "HasPrefix s p = prefix p s"

definition TrimPrefix :: "string \<Rightarrow> string \<Rightarrow> string" where
  "TrimPrefix s p = (if HasPrefix s p then drop (length p) s else s)"

definition CutPrefix :: "string \<Rightarrow> string \<Rightarrow> string option" where
  \<comment> \<open>\<open>strings.CutPrefix\<close>: \<open>Some after\<close> when the prefix was found, \<open>None\<close> otherwise.\<close>
  "CutPrefix s p = (if HasPrefix s p then Some (drop (length p) s) else None)"

definition Contains :: "string \<Rightarrow> string \<Rightarrow> bool" where
  "Contains s sub = (\<exists>i \<in> set [0 ..< Suc (length s)]. prefix sub (drop i s))"

fun IndexByte :: "string \<Rightarrow> char \<Rightarrow> nat option" where
  \<comment> \<open>\<open>strings.IndexByte\<close>: index of the first occurrence, \<open>None\<close> for Go's \<open>-1\<close>.\<close>
  "IndexByte [] c = None"
| "IndexByte (x # xs) c =
     (if x = c then Some 0 else map_option Suc (IndexByte xs c))"

function ReplaceAll :: "string \<Rightarrow> string \<Rightarrow> string \<Rightarrow> string" where
  \<comment> \<open>\<open>strings.ReplaceAll\<close> for a non-empty \<open>old\<close>: the non-overlapping occurrences are
      replaced from left to right. Every call in the source has a two-byte \<open>old\<close>; the
      insertion Go performs for an empty \<open>old\<close> is not needed and not modelled.\<close>
  "ReplaceAll s old new =
     (if old = [] \<or> s = [] then s
      else if prefix old s then new @ ReplaceAll (drop (length old) s) old new
      else hd s # ReplaceAll (tl s) old new)"
  by pat_completeness auto
termination
  by (relation "measure (\<lambda>(s, old, new). length s)") (auto simp: neq_Nil_conv)

declare ReplaceAll.simps [simp del]

definition isDigit :: "char \<Rightarrow> bool" where
  \<comment> \<open>the byte test \<open>c >= '0' && c <= '9'\<close>\<close>
  "isDigit c \<longleftrightarrow> (48::nat) \<le> of_char c \<and> (of_char c :: nat) \<le> 57"

section \<open>Model resolver\<close>

text \<open>
  \<open>ProviderType\<close> and \<open>Model\<close> are Go string types. The provider constants are
  declared in \<open>provider_openai.go\<close>; the \<open>Model\<close> constants that key the table
  \<open>modelMappings\<close> are declared in another file of the package, so the table is a parameter
  of the resolver: a map from provider types to maps from models to provider-native
  identifiers, exactly the shape of the Go variable.
\<close>

type_synonym ProviderType = string
type_synonym Model = string

definition ProviderOpenRouter :: ProviderType where "ProviderOpenRouter = ''openrouter''"
definition ProviderOpenAI :: ProviderType where "ProviderOpenAI = ''openai''"
definition ProviderAnthropic :: ProviderType where "ProviderAnthropic = ''anthropic''"
definition ProviderGoogle :: ProviderType where "ProviderGoogle = ''google''"
definition ProviderOllama :: ProviderType where "ProviderOllama = ''ollama''"
definition ProviderAzure :: ProviderType where "ProviderAzure = ''azure''"

type_synonym mappings = "ProviderType \<rightharpoonup> (Model \<rightharpoonup> string)"

definition init :: "mappings \<Rightarrow> mappings" where
  \<comment> \<open>the package initialiser: Azure shares the OpenAI table\<close>
  "init modelMappings =
     (case modelMappings ProviderOpenAI of
        Some m \<Rightarrow> modelMappings(ProviderAzure \<mapsto> m)
      | None \<Rightarrow> modelMappings)"

definition looksLikeOpenAIModelID :: "string \<Rightarrow> bool" where
  "looksLikeOpenAIModelID ident =
     (if HasPrefix ident ''gpt-'' then True
      else if HasPrefix ident ''chatgpt-'' then True
      else if HasPrefix ident ''sora-'' then True
      else if HasPrefix ident ''whisper-'' then True
      else if HasPrefix ident ''tts-'' then True
      else if HasPrefix ident ''text-embedding-'' then True
      else if length ident \<ge> 2 \<and> ident ! 0 = CHR ''o'' \<and> isDigit (ident ! 1) then True
      else False)"

definition normalizeAnthropicModelID :: "string \<Rightarrow> string" where
  "normalizeAnthropicModelID raw0 =
     (let raw1 = (case CutPrefix raw0 ''anthropic/'' of Some after \<Rightarrow> after | None \<Rightarrow> raw0);
          raw = (case IndexByte raw1 (CHR '':'') of Some i \<Rightarrow> take i raw1 | None \<Rightarrow> raw1)
      in if raw = ''claude-sonnet-4.5'' then ''claude-sonnet-4-5-20250929''
         else if raw = ''claude-haiku-4.5'' then ''claude-haiku-4-5-20251001''
         else if raw = ''claude-opus-4.5'' then ''claude-opus-4-5-20251101''
         else if raw = ''claude-opus-4.1'' then ''claude-opus-4-1-20250805''
         else if raw = ''claude-opus-4'' then ''claude-opus-4-20250514''
         else if raw = ''claude-sonnet-4'' then ''claude-sonnet-4-20250514''
         else if raw = ''claude-3.7-sonnet'' then ''claude-3-7-sonnet-20250219''
         else if raw = ''claude-3.5-haiku'' then ''claude-3-5-haiku-20241022''
         else if raw = ''claude-3-haiku'' then ''claude-3-haiku-20240307''
         else if raw = ''claude-3-opus'' then ''claude-3-opus-20240229''
         else if raw = ''claude-3-sonnet'' then ''claude-3-sonnet-20240229''
         else
           (let r1 = ReplaceAll raw ''.1'' ''-1'';
                r2 = ReplaceAll r1 ''.5'' ''-5'';
                r3 = ReplaceAll r2 ''.7'' ''-7'';
                r4 = ReplaceAll r3 ''.0'' ''-0'';
                r5 = ReplaceAll r4 ''.2'' ''-2'';
                r6 = ReplaceAll r5 ''.3'' ''-3'';
                r7 = ReplaceAll r6 ''.4'' ''-4'';
                r8 = ReplaceAll r7 ''.6'' ''-6'';
                r9 = ReplaceAll r8 ''.8'' ''-8''
            in ReplaceAll r9 ''.9'' ''-9''))"

definition resolveModel :: "mappings \<Rightarrow> ProviderType \<Rightarrow> Model \<Rightarrow> string" where
  "resolveModel modelMappings providerType model =
     (case (case modelMappings providerType of
              Some mapping \<Rightarrow> mapping model
            | None \<Rightarrow> None) of
        Some resolved \<Rightarrow> resolved
      | None \<Rightarrow>
          (let raw = model in
           if providerType = ProviderOpenAI \<or> providerType = ProviderAzure then
             (if HasPrefix raw ''openai/'' then TrimPrefix raw ''openai/'' else raw)
           else if providerType = ProviderOpenRouter then
             (if \<not> Contains raw ''/'' \<and> looksLikeOpenAIModelID raw
              then ''openai/'' @ raw else raw)
           else if providerType = ProviderAnthropic then normalizeAnthropicModelID raw
           else if providerType = ProviderGoogle then
             (if HasPrefix raw ''google/'' then TrimPrefix raw ''google/'' else raw)
           else raw))"

text \<open>
  The spec's description of the fallback transliteration, "replace dotted version
  separators with dash separators", as one pass over the string: a dot that is directly
  followed by a decimal digit becomes a dash, every other byte is kept.
\<close>

fun dotsToDashes :: "string \<Rightarrow> string" where
  "dotsToDashes [] = []"
| "dotsToDashes (a # s) =
     (if a = CHR ''.'' \<and> s \<noteq> [] \<and> isDigit (hd s) then CHR ''-'' else a) # dotsToDashes s"

definition stripAnthropic :: "string \<Rightarrow> string" where
  \<comment> \<open>the first two steps of \<open>normalizeAnthropicModelID\<close>: the vendor prefix and the
      routing suffix after a colon are removed\<close>
  "stripAnthropic raw0 =
     (let raw1 = (case CutPrefix raw0 ''anthropic/'' of Some after \<Rightarrow> after | None \<Rightarrow> raw0)
      in case IndexByte raw1 (CHR '':'') of Some i \<Rightarrow> take i raw1 | None \<Rightarrow> raw1)"

definition anthropicSnapshots :: "(string \<times> string) list" where
  \<comment> \<open>the case labels of the switch in \<open>normalizeAnthropicModelID\<close> with the snapshot each
      one returns: the explicit shorthand-to-snapshot mapping\<close>
  "anthropicSnapshots =
     [(''claude-sonnet-4.5'', ''claude-sonnet-4-5-20250929''),
      (''claude-haiku-4.5'', ''claude-haiku-4-5-20251001''),
      (''claude-opus-4.5'', ''claude-opus-4-5-20251101''),
      (''claude-opus-4.1'', ''claude-opus-4-1-20250805''),
      (''claude-opus-4'', ''claude-opus-4-20250514''),
      (''claude-sonnet-4'', ''claude-sonnet-4-20250514''),
      (''claude-3.7-sonnet'', ''claude-3-7-sonnet-20250219''),
      (''claude-3.5-haiku'', ''claude-3-5-haiku-20241022''),
      (''claude-3-haiku'', ''claude-3-haiku-20240307''),
      (''claude-3-opus'', ''claude-3-opus-20240229''),
      (''claude-3-sonnet'', ''claude-3-sonnet-20240229'')]"

fun hasDottedVersion :: "string \<Rightarrow> bool" where
  \<comment> \<open>some dot of the string is directly followed by a decimal digit\<close>
  "hasDottedVersion [] = False"
| "hasDottedVersion (a # s) =
     ((a = CHR ''.'' \<and> s \<noteq> [] \<and> isDigit (hd s)) \<or> hasDottedVersion s)"

definition tableEntry :: "mappings \<Rightarrow> ProviderType \<Rightarrow> Model \<Rightarrow> string option" where
  \<comment> \<open>the two-level lookup \<open>modelMappings[providerType][model]\<close>\<close>
  "tableEntry modelMappings providerType model =
     (case modelMappings providerType of
        Some mapping \<Rightarrow> mapping model
      | None \<Rightarrow> None)"

definition nextIs :: "char \<Rightarrow> string \<Rightarrow> bool" where
  "nextIs d s \<longleftrightarrow> s \<noteq> [] \<and> hd s = d"

definition dash :: "bool \<Rightarrow> char \<Rightarrow> char" where
  "dash P a = (if a = CHR ''.'' \<and> P then CHR ''-'' else a)"

definition replaceDots :: "string \<Rightarrow> string" where
  \<comment> \<open>the ten \<open>ReplaceAll\<close> calls that end \<open>normalizeAnthropicModelID\<close>, in source order\<close>
  "replaceDots raw =
     (let r1 = ReplaceAll raw ''.1'' ''-1'';
          r2 = ReplaceAll r1 ''.5'' ''-5'';
          r3 = ReplaceAll r2 ''.7'' ''-7'';
          r4 = ReplaceAll r3 ''.0'' ''-0'';
          r5 = ReplaceAll r4 ''.2'' ''-2'';
          r6 = ReplaceAll r5 ''.3'' ''-3'';
          r7 = ReplaceAll r6 ''.4'' ''-4'';
          r8 = ReplaceAll r7 ''.6'' ''-6'';
          r9 = ReplaceAll r8 ''.8'' ''-8''
      in ReplaceAll r9 ''.9'' ''-9'')"

section \<open>Built-in tool configuration and its wire form\<close>

text \<open>
  \<open>BuiltinTool\<close> (\<open>responses.go\<close>) is one flat struct with a type tag and the optional
  fields of all tags. A pointer field is an \<open>option\<close> (\<open>None\<close> for \<open>nil\<close>); a field of
  the interface type \<open>any\<close> is an \<open>option\<close> of an opaque value type \<open>'v\<close>; a slice is a
  list (a \<open>nil\<close> slice and an empty slice both have length zero); Go's \<open>int\<close> is only
  compared with zero here and is an \<open>int\<close>.
\<close>

record UserLocation =
  ul_Type :: string
  ul_Country :: string
  ul_City :: string
  ul_Region :: string
  ul_Timezone :: string

record SearchFilter =
  AllowedDomains :: "string list"

record 'v BuiltinTool =
  Type :: string
  UserLocation :: "UserLocation option"
  SearchFilter :: "SearchFilter option"
  VectorStoreIDs :: "string list"
  MaxNumResults :: int
  FileFilter :: "'v option"
  Container :: "'v option"
  ServerLabel :: string
  ServerURL :: string
  ServerDescription :: string
  ConnectorID :: string
  Authorization :: string
  RequireApproval :: "'v option"
  AllowedTools :: "string list"
  ImageSize :: string
  ImageQuality :: string
  ImageFormat :: string
  ImageCompression :: int
  ImageBackground :: string
  PartialImages :: int
  DisplayWidth :: int
  DisplayHeight :: int
  Environment :: string

text \<open>
  The result of \<open>buildBuiltinTool\<close> is a Go \<open>map[string]any\<close>: a finite map from field
  names to the values the function stores, which are strings, ints, string slices,
  non-nil pointers to the two filter structs and non-nil interface values.
\<close>

datatype 'v wire =
    WString string
  | WInt int
  | WStrings "string list"
  | WUserLocation UserLocation
  | WSearchFilter SearchFilter
  | WAny 'v

type_synonym 'v wireObject = "string \<rightharpoonup> 'v wire"

text \<open>The four guarded assignments the function is made of.\<close>

definition setStr :: "string \<Rightarrow> string \<Rightarrow> 'v wireObject \<Rightarrow> 'v wireObject" where
  \<comment> \<open>\<open>if s != "" { tool[k] = s }\<close>\<close>
  "setStr k s tool = (if s \<noteq> [] then tool(k \<mapsto> WString s) else tool)"

definition setPos :: "string \<Rightarrow> int \<Rightarrow> 'v wireObject \<Rightarrow> 'v wireObject" where
  \<comment> \<open>\<open>if i > 0 { tool[k] = i }\<close>\<close>
  "setPos k i tool = (if i > 0 then tool(k \<mapsto> WInt i) else tool)"

definition setList :: "string \<Rightarrow> string list \<Rightarrow> 'v wireObject \<Rightarrow> 'v wireObject" where
  \<comment> \<open>\<open>if len(l) > 0 { tool[k] = l }\<close>\<close>
  "setList k l tool = (if length l > 0 then tool(k \<mapsto> WStrings l) else tool)"

definition setPtr :: "string \<Rightarrow> ('a \<Rightarrow> 'v wire) \<Rightarrow> 'a option \<Rightarrow> 'v wireObject \<Rightarrow> 'v wireObject" where
  \<comment> \<open>\<open>if p != nil { tool[k] = p }\<close>\<close>
  "setPtr k w p tool = (case p of Some x \<Rightarrow> tool(k \<mapsto> w x) | None \<Rightarrow> tool)"

definition buildBuiltinTool :: "'v BuiltinTool \<Rightarrow> 'v wireObject" where
  \<comment> \<open>The receiver is not used. The function has no error result and no statement that
      can panic; the switch has no default branch. Nested applications are written
      innermost first, in the order of the source's statements.\<close>
  "buildBuiltinTool bt =
     (let tool = [''type'' \<mapsto> WString (Type bt)] in
      if Type bt = ''web_search'' then
        setPtr ''filters'' WSearchFilter (SearchFilter bt)
          (setPtr ''user_location'' WUserLocation (UserLocation bt) tool)
      else if Type bt = ''file_search'' then
        setPtr ''filters'' WAny (FileFilter bt)
          (setPos ''max_num_results'' (MaxNumResults bt)
            (setList ''vector_store_ids'' (VectorStoreIDs bt) tool))
      else if Type bt = ''code_interpreter'' then
        setPtr ''container'' WAny (Container bt) tool
      else if Type bt = ''mcp'' then
        setList ''allowed_tools'' (AllowedTools bt)
          (setPtr ''require_approval'' WAny (RequireApproval bt)
            (setStr ''authorization'' (Authorization bt)
              (setStr ''connector_id'' (ConnectorID bt)
                (setStr ''server_description'' (ServerDescription bt)
                  (setStr ''server_url'' (ServerURL bt)
                    (setStr ''server_label'' (ServerLabel bt) tool))))))
      else if Type bt = ''image_generation'' then
        setPos ''partial_images'' (PartialImages bt)
          (setStr ''background'' (ImageBackground bt)
            (setPos ''compression'' (ImageCompression bt)
              (setStr ''output_format'' (ImageFormat bt)
                (setStr ''quality'' (ImageQuality bt)
                  (setStr ''size'' (ImageSize bt) tool)))))
      else if Type bt = ''computer_use_preview'' then
        setStr ''environment'' (Environment bt)
          (setPos ''display_height'' (DisplayHeight bt)
            (setPos ''display_width'' (DisplayWidth bt) tool))
      else if Type bt = ''shell'' then tool
      else if Type bt = ''apply_patch'' then tool
      else tool)"

definition recognizedTags :: "string list" where
  \<comment> \<open>the case labels of the switch in \<open>buildBuiltinTool\<close>\<close>
  "recognizedTags =
     [''web_search'', ''file_search'', ''code_interpreter'', ''mcp'', ''image_generation'',
      ''computer_use_preview'', ''shell'', ''apply_patch'']"

definition zeroUserLocation :: UserLocation where
  "zeroUserLocation =
     \<lparr>ul_Type = [], ul_Country = [], ul_City = [], ul_Region = [], ul_Timezone = []\<rparr>"

fun isZero :: "('v \<Rightarrow> bool) \<Rightarrow> 'v wire \<Rightarrow> bool" where
  \<comment> \<open>An empty or zero value on the wire: an empty string, a zero, an empty list, a
      struct all of whose fields are empty, and for an interface value whatever the
      first argument says is empty among the values the interface can hold.\<close>
  "isZero emptyAny (WString s) = (s = [])"
| "isZero emptyAny (WInt i) = (i = 0)"
| "isZero emptyAny (WStrings l) = (l = [])"
| "isZero emptyAny (WUserLocation u) = (u = zeroUserLocation)"
| "isZero emptyAny (WSearchFilter f) = (AllowedDomains f = [])"
| "isZero emptyAny (WAny v) = emptyAny v"

definition noZeroField :: "('v \<Rightarrow> bool) \<Rightarrow> 'v wireObject \<Rightarrow> bool" where
  \<comment> \<open>no field other than the discriminator holds an empty or zero value\<close>
  "noZeroField emptyAny tool \<longleftrightarrow>
     (\<forall>k v. k \<noteq> ''type'' \<and> tool k = Some v \<longrightarrow> \<not> isZero emptyAny v)"

definition pointerFields :: "string list" where
  \<comment> \<open>the wire fields that \<open>buildBuiltinTool\<close> fills from a pointer or an interface field,
      under the guard \<open>!= nil\<close>\<close>
  "pointerFields = [''user_location'', ''filters'', ''container'', ''require_approval'']"

definition zerosOnlyAt :: "('v \<Rightarrow> bool) \<Rightarrow> 'v wireObject \<Rightarrow> bool" where
  \<comment> \<open>an empty or zero value sits under no field other than the pointer and interface
      fields\<close>
  "zerosOnlyAt emptyAny tool \<longleftrightarrow>
     (\<forall>k v. k \<noteq> ''type'' \<and> tool k = Some v \<and> isZero emptyAny v \<longrightarrow> k \<in> set pointerFields)"

definition strField :: "string \<Rightarrow> 'v wire option" where
  \<comment> \<open>a string field on the wire: absent when empty\<close>
  "strField s = (if s = [] then None else Some (WString s))"

definition posField :: "int \<Rightarrow> 'v wire option" where
  \<comment> \<open>an integer field on the wire: absent unless positive\<close>
  "posField i = (if i > 0 then Some (WInt i) else None)"

definition listField :: "string list \<Rightarrow> 'v wire option" where
  \<comment> \<open>a slice field on the wire: absent when its length is zero\<close>
  "listField l = (if l = [] then None else Some (WStrings l))"

definition emptyString :: "string \<Rightarrow> bool" where
  \<comment> \<open>emptiness of an interface value that holds a Go string\<close>
  "emptyString s \<longleftrightarrow> s = []"

record 'v FileSearchOptions =
  fso_VectorStoreIDs :: "string list"
  fso_MaxNumResults :: int
  fso_Filters :: "'v option"

definition emptyTool :: "string \<Rightarrow> 'v BuiltinTool" where
  \<comment> \<open>the Go composite literal \<open>BuiltinTool{Type: t}\<close>: every other field has its zero value\<close>
  "emptyTool t =
     \<lparr>Type = t, UserLocation = None, SearchFilter = None, VectorStoreIDs = [],
      MaxNumResults = 0, FileFilter = None, Container = None, ServerLabel = [],
      ServerURL = [], ServerDescription = [], ConnectorID = [], Authorization = [],
      RequireApproval = None, AllowedTools = [], ImageSize = [], ImageQuality = [],
      ImageFormat = [], ImageCompression = 0, ImageBackground = [], PartialImages = 0,
      DisplayWidth = 0, DisplayHeight = 0, Environment = []\<rparr>"

definition FileSearchWith :: "'v FileSearchOptions \<Rightarrow> 'v BuiltinTool" where
  \<comment> \<open>the tool that the builder method \<open>FileSearchWith\<close> (\<open>responses.go\<close>) appends: the
      options are copied without a check\<close>
  "FileSearchWith opts =
     (emptyTool ''file_search'')
       \<lparr>VectorStoreIDs := fso_VectorStoreIDs opts, MaxNumResults := fso_MaxNumResults opts,
        FileFilter := fso_Filters opts\<rparr>"

section \<open>Decoding a Responses API body\<close>

subsection \<open>The decoded envelope\<close>

text \<open>
  \<open>parseResponsesResponse\<close> unmarshals the body into an anonymous struct and then walks
  the decoded output items. The records below are that struct, field by field (struct
  fields are prefixed, since record fields share one name space). The field \<open>Action\<close>
  has the type \<open>json.RawMessage\<close>: undecoded bytes, of the abstract type \<open>'r\<close> here.
\<close>

record Annotation =
  ann_Type :: string
  ann_URL :: string
  ann_Title :: string
  ann_FileID :: string
  ann_Filename :: string
  ann_StartIndex :: int
  ann_EndIndex :: int

record ContentPart =
  c_Type :: string
  c_Text :: string
  c_Annotations :: "Annotation list"

record SafetyCheck =
  sc_ID :: string
  sc_Code :: string
  sc_Message :: string

record PatchOperation =
  po_Type :: string
  po_Path :: string
  po_Diff :: string

record 'r OutputItem =
  item_ID :: string
  item_Type :: string
  item_Status :: string
  item_CallID :: string
  item_Role :: string
  item_Content :: "ContentPart list"
  item_ServerLabel :: string
  item_Name :: string
  item_Arguments :: string
  item_OutputText :: string
  item_Error :: string
  item_RevisedPrompt :: string
  item_Result :: string
  item_Action :: 'r
  item_PendingSafetyChecks :: "SafetyCheck list"
  item_Operation :: "PatchOperation option"

record ResponsesUsage =
  InputTokens :: int
  OutputTokens :: int
  u_TotalTokens :: int

record ErrorObject =
  err_Message :: string
  err_Type :: string
  err_Code :: string

record 'r responsesResult =
  res_ID :: string
  res_Status :: string
  res_Output :: "'r OutputItem list"
  res_OutputText :: string
  res_Usage :: ResponsesUsage
  res_Error :: "ErrorObject option"

subsection \<open>The abstract response\<close>

record Citation =
  cit_Type :: string
  cit_URL :: string
  cit_Title :: string
  cit_FileID :: string
  cit_Filename :: string
  cit_StartIndex :: int
  cit_EndIndex :: int

record ComputerAction =
  ca_Type :: string
  ca_X :: int
  ca_Y :: int
  ca_Button :: string
  ca_ScrollX :: int
  ca_ScrollY :: int
  ca_Keys :: "string list"
  ca_Text :: string

record ShellAction =
  Commands :: "string list"
  TimeoutMs :: int
  MaxOutputLength :: int

record ResponsesToolCall =
  tc_ID :: string
  tc_Type :: string
  tc_Status :: string
  tc_CallID :: string
  tc_ServerLabel :: string
  tc_Name :: string
  tc_Arguments :: string
  tc_Output :: string
  tc_Error :: string
  tc_RevisedPrompt :: string
  tc_ImageResult :: string
  tc_Action :: "ComputerAction option"
  tc_ShellAction :: "ShellAction option"
  tc_PatchOperation :: "PatchOperation option"
  tc_PendingSafetyChecks :: "SafetyCheck list"

text \<open>
  \<open>ResponsesOutput\<close> also declares \<open>Sources\<close> and \<open>OutputItems\<close>; neither parser assigns
  them, so they keep their zero value and are left out of the record.
\<close>

record ResponsesOutput =
  Text :: string
  Citations :: "Citation list"
  ro_ToolCalls :: "ResponsesToolCall list"

text \<open>The function-tool call struct \<open>ToolCall\<close> is declared in another file of the package.\<close>

typedecl ToolCall

record ProviderResponse =
  Content :: string
  ToolCalls :: "ToolCall list"
  PromptTokens :: int
  CompletionTokens :: int
  TotalTokens :: int
  FinishReason :: string
  ResponsesOutput :: "ResponsesOutput option"

text \<open>
  \<open>ProviderError\<close>: the wrapped error \<open>Err\<close> is never set by the two parsers and is
  represented by its text when present.
\<close>

record ProviderError =
  Provider :: string
  Code :: string
  Message :: string
  Err :: "string option"

subsection \<open>The decoded chat-completions envelope\<close>

record ChatMessage =
  msg_Role :: string
  msg_Content :: string
  msg_ToolCalls :: "ToolCall list"

record ChatChoice =
  ch_Message :: ChatMessage
  ch_FinishReason :: string

record ChatUsage =
  cu_PromptTokens :: int
  cu_CompletionTokens :: int
  cu_TotalTokens :: int

record chatResult =
  chat_ID :: string
  chat_Choices :: "ChatChoice list"
  chat_Usage :: ChatUsage
  chat_Error :: "ErrorObject option"

subsection \<open>The calls into \<open>encoding/json\<close>\<close>

text \<open>
  The parsers call \<open>json.Unmarshal\<close> of the Go standard library four times: on the body
  for each of the two envelopes, and on the raw \<open>action\<close> bytes of an item for
  \<open>ComputerAction\<close> and for \<open>ShellAction\<close>. These calls, together with the length test
  on raw bytes and the conversion \<open>string(body)\<close>, are parameters of the model: every
  property below that is stated for an arbitrary \<open>lib\<close> holds whatever the library
  does. A failed call returns the text of its error in \<open>Inl\<close>.
\<close>

record ('b, 'r) jsonlib =
  unmarshalResult :: "'b \<Rightarrow> string + 'r responsesResult"
  unmarshalChat :: "'b \<Rightarrow> string + chatResult"
  unmarshalComputerAction :: "'r \<Rightarrow> string + ComputerAction"
  unmarshalShellAction :: "'r \<Rightarrow> string + ShellAction"
  rawLen :: "'r \<Rightarrow> nat"
  bodyString :: "'b \<Rightarrow> string"

subsection \<open>The parsers\<close>

definition Name :: string where
  \<comment> \<open>\<open>(*OpenAIProvider).Name\<close>\<close>
  "Name = ''openai''"

definition parseError :: "string \<Rightarrow> string \<Rightarrow> ProviderError" where
  \<comment> \<open>\<open>fmt.Sprintf("parse error: %v\nBody: %s", err, string(body))\<close>\<close>
  "parseError err bodyText =
     \<lparr>Provider = Name, Code = [],
      Message = ''parse error: '' @ err @ [CHR 0x0A] @ ''Body: '' @ bodyText, Err = None\<rparr>"

definition backendError :: "ErrorObject \<Rightarrow> ProviderError" where
  "backendError e =
     \<lparr>Provider = Name, Code = err_Code e, Message = err_Message e, Err = None\<rparr>"

definition toCitation :: "Annotation \<Rightarrow> Citation" where
  "toCitation ann =
     \<lparr>cit_Type = ann_Type ann, cit_URL = ann_URL ann, cit_Title = ann_Title ann,
      cit_FileID = ann_FileID ann, cit_Filename = ann_Filename ann,
      cit_StartIndex = ann_StartIndex ann, cit_EndIndex = ann_EndIndex ann\<rparr>"

definition baseToolCall :: "'r OutputItem \<Rightarrow> ResponsesToolCall" where
  \<comment> \<open>the composite literal \<open>ResponsesToolCall{ID, Type, Status, CallID}\<close>\<close>
  "baseToolCall item =
     \<lparr>tc_ID = item_ID item, tc_Type = item_Type item, tc_Status = item_Status item,
      tc_CallID = item_CallID item, tc_ServerLabel = [], tc_Name = [], tc_Arguments = [],
      tc_Output = [], tc_Error = [], tc_RevisedPrompt = [], tc_ImageResult = [],
      tc_Action = None, tc_ShellAction = None, tc_PatchOperation = None,
      tc_PendingSafetyChecks = []\<rparr>"

type_synonym walkState = "string \<times> Citation list \<times> ResponsesToolCall list"

definition walkContent :: "string \<times> Citation list \<Rightarrow> ContentPart \<Rightarrow> string \<times> Citation list" where
  \<comment> \<open>the body of the loop over \<open>item.Content\<close>\<close>
  "walkContent acc c =
     (case acc of (textContent, citations) \<Rightarrow>
        if c_Type c = ''output_text'' \<or> c_Type c = ''text''
        then (textContent @ c_Text c, citations @ map toCitation (c_Annotations c))
        else (textContent, citations))"

definition walkItem :: "('b, 'r) jsonlib \<Rightarrow> walkState \<Rightarrow> 'r OutputItem \<Rightarrow> walkState" where
  \<comment> \<open>the body of the loop over \<open>result.Output\<close>: the switch on \<open>item.Type\<close>, which has
      no default branch\<close>
  "walkItem lib acc item =
     (case acc of (textContent, citations, toolCalls) \<Rightarrow>
        if item_Type item = ''message'' then
          (case foldl walkContent (textContent, citations) (item_Content item) of
             (textContent', citations') \<Rightarrow> (textContent', citations', toolCalls))
        else if item_Type item = ''web_search_call'' \<or> item_Type item = ''file_search_call''
                \<or> item_Type item = ''mcp_call'' \<or> item_Type item = ''code_interpreter_call'' then
          (textContent, citations,
           toolCalls @ [baseToolCall item
             \<lparr>tc_ServerLabel := item_ServerLabel item, tc_Name := item_Name item,
              tc_Arguments := item_Arguments item, tc_Output := item_OutputText item,
              tc_Error := item_Error item\<rparr>])
        else if item_Type item = ''image_generation_call'' then
          (textContent, citations,
           toolCalls @ [baseToolCall item
             \<lparr>tc_RevisedPrompt := item_RevisedPrompt item,
              tc_ImageResult := item_Result item\<rparr>])
        else if item_Type item = ''computer_call'' then
          (let tc = baseToolCall item;
               tc = (if rawLen lib (item_Action item) > 0 then
                       (case unmarshalComputerAction lib (item_Action item) of
                          Inr action \<Rightarrow> tc\<lparr>tc_Action := Some action\<rparr>
                        | Inl err \<Rightarrow> tc)
                     else tc);
               tc = tc\<lparr>tc_PendingSafetyChecks :=
                       tc_PendingSafetyChecks tc
                         @ map (\<lambda>sc. \<lparr>sc_ID = sc_ID sc, sc_Code = sc_Code sc,
                                        sc_Message = sc_Message sc\<rparr>)
                             (item_PendingSafetyChecks item)\<rparr>
           in (textContent, citations, toolCalls @ [tc]))
        else if item_Type item = ''shell_call'' then
          (let tc = baseToolCall item;
               tc = (if rawLen lib (item_Action item) > 0 then
                       (case unmarshalShellAction lib (item_Action item) of
                          Inr action \<Rightarrow> tc\<lparr>tc_ShellAction := Some action\<rparr>
                        | Inl err \<Rightarrow> tc)
                     else tc)
           in (textContent, citations, toolCalls @ [tc]))
        else if item_Type item = ''apply_patch_call'' then
          (let tc = baseToolCall item;
               tc = (case item_Operation item of
                       Some op \<Rightarrow>
                         tc\<lparr>tc_PatchOperation :=
                              Some \<lparr>po_Type = po_Type op, po_Path = po_Path op,
                                    po_Diff = po_Diff op\<rparr>\<rparr>
                     | None \<Rightarrow> tc)
           in (textContent, citations, toolCalls @ [tc]))
        else (textContent, citations, toolCalls))"

definition parseResponsesResponse ::
  "('b, 'r) jsonlib \<Rightarrow> 'b \<Rightarrow> ProviderError + ProviderResponse" where
  "parseResponsesResponse lib body =
     (case unmarshalResult lib body of
        Inl err \<Rightarrow> Inl (parseError err (bodyString lib body))
      | Inr result \<Rightarrow>
          (case res_Error result of
             Some e \<Rightarrow> Inl (backendError e)
           | None \<Rightarrow>
               (case foldl (walkItem lib) ([], [], []) (res_Output result) of
                  (walked, citations, toolCalls) \<Rightarrow>
                    (let textContent =
                           (if walked = [] \<and> res_OutputText result \<noteq> []
                            then res_OutputText result else walked)
                     in Inr \<lparr>Content = textContent, ToolCalls = [],
                             PromptTokens = InputTokens (res_Usage result),
                             CompletionTokens = OutputTokens (res_Usage result),
                             TotalTokens = u_TotalTokens (res_Usage result),
                             FinishReason = [],
                             ResponsesOutput =
                               Some \<lparr>Text = textContent, Citations = citations,
                                     ro_ToolCalls = toolCalls\<rparr>\<rparr>))))"

definition parseResponse ::
  "('b, 'r) jsonlib \<Rightarrow> 'b \<Rightarrow> ProviderError + ProviderResponse" where
  "parseResponse lib body =
     (case unmarshalChat lib body of
        Inl err \<Rightarrow> Inl (parseError err (bodyString lib body))
      | Inr result \<Rightarrow>
          (case chat_Error result of
             Some e \<Rightarrow> Inl (backendError e)
           | None \<Rightarrow>
               (case chat_Choices result of
                  [] \<Rightarrow> Inl \<lparr>Provider = Name, Code = [],
                             Message = ''no response choices'', Err = None\<rparr>
                | choice # rest \<Rightarrow>
                    Inr \<lparr>Content = msg_Content (ch_Message choice),
                         ToolCalls = msg_ToolCalls (ch_Message choice),
                         PromptTokens = cu_PromptTokens (chat_Usage result),
                         CompletionTokens = cu_CompletionTokens (chat_Usage result),
                         TotalTokens = cu_TotalTokens (chat_Usage result),
                         FinishReason = ch_FinishReason choice,
                         ResponsesOutput = None\<rparr>)))"

subsection \<open>What one item contributes\<close>

text \<open>
  The text, the citations and the tool calls that a single output item adds, read off
  the branches of the switch. They are used to state that the walk treats every item
  on its own.
\<close>

definition partText :: "ContentPart \<Rightarrow> string" where
  "partText c = (if c_Type c = ''output_text'' \<or> c_Type c = ''text'' then c_Text c else [])"

definition partCitations :: "ContentPart \<Rightarrow> Citation list" where
  "partCitations c =
     (if c_Type c = ''output_text'' \<or> c_Type c = ''text''
      then map toCitation (c_Annotations c) else [])"

definition itemText :: "'r OutputItem \<Rightarrow> string" where
  "itemText item =
     (if item_Type item = ''message'' then concat (map partText (item_Content item)) else [])"

definition itemCitations :: "'r OutputItem \<Rightarrow> Citation list" where
  "itemCitations item =
     (if item_Type item = ''message''
      then concat (map partCitations (item_Content item)) else [])"

definition itemToolCalls :: "('b, 'r) jsonlib \<Rightarrow> 'r OutputItem \<Rightarrow> ResponsesToolCall list" where
  "itemToolCalls lib item = snd (snd (walkItem lib ([], [], []) item))"

definition toolCallTypes :: "string list" where
  \<comment> \<open>the case labels of the switch other than \<open>message\<close>\<close>
  "toolCallTypes =
     [''web_search_call'', ''file_search_call'', ''mcp_call'', ''code_interpreter_call'',
      ''image_generation_call'', ''computer_call'', ''shell_call'', ''apply_patch_call'']"

definition messageText :: "'r OutputItem list \<Rightarrow> string" where
  \<comment> \<open>the text accumulated by the walk over the message items\<close>
  "messageText items = concat (map itemText items)"

definition finalText :: "'r responsesResult \<Rightarrow> string" where
  \<comment> \<open>the text the decoder returns: the walked text, or the convenience field
      \<open>output_text\<close> when the walk collected nothing\<close>
  "finalText result =
     (if messageText (res_Output result) = [] \<and> res_OutputText result \<noteq> []
      then res_OutputText result else messageText (res_Output result))"

section \<open>A model of \<open>encoding/json\<close> on syntax trees\<close>

text \<open>
  To run the parsers on concrete bodies, the library calls are given a model that
  follows the documented behaviour of \<open>json.Unmarshal\<close> for the struct types above. A
  body is represented by the syntax tree of its JSON text; a number keeps its literal.
  For a struct field: an absent key and \<open>null\<close> leave the zero value; a value of the
  JSON type the field expects is stored; any other value is an \<open>UnmarshalTypeError\<close>,
  and \<open>Unmarshal\<close> then returns a non-nil error. Keys that match no field are ignored. A
  field of type \<open>json.RawMessage\<close> takes any value undecoded. The model is meant for
  objects whose keys are distinct and spelled as in the struct tags; it returns the
  first type error in field order, where Go reports the first one in document order
  (only the presence of an error matters to the parsers).
\<close>

datatype json =
    JNull
  | JBool bool
  | JNumber string
  | JString string
  | JArray "json list"
  | JObject "(string \<times> json) list"

fun jsonKind :: "json \<Rightarrow> string" where
  "jsonKind JNull = ''null''"
| "jsonKind (JBool b) = ''bool''"
| "jsonKind (JNumber lit) = ''number''"
| "jsonKind (JString s) = ''string''"
| "jsonKind (JArray js) = ''array''"
| "jsonKind (JObject kvs) = ''object''"

definition typeError :: "json \<Rightarrow> string \<Rightarrow> string" where
  "typeError j ty =
     ''json: cannot unmarshal '' @ jsonKind j @ '' into Go value of type '' @ ty"

definition bindE :: "'e + 'a \<Rightarrow> ('a \<Rightarrow> 'e + 'b) \<Rightarrow> 'e + 'b" where
  "bindE x f = (case x of Inl e \<Rightarrow> Inl e | Inr a \<Rightarrow> f a)"

fun mapE :: "('a \<Rightarrow> 'e + 'b) \<Rightarrow> 'a list \<Rightarrow> 'e + 'b list" where
  "mapE f [] = Inr []"
| "mapE f (x # xs) = bindE (f x) (\<lambda>y. bindE (mapE f xs) (\<lambda>ys. Inr (y # ys)))"

definition parseInt :: "string \<Rightarrow> int option" where
  \<comment> \<open>the value of a number literal that is a decimal integer within 64 bits\<close>
  "parseInt lit =
     (let neg = (lit \<noteq> [] \<and> hd lit = CHR ''-'');
          ds = (if neg then tl lit else lit)
      in if ds = [] \<or> \<not> list_all isDigit ds then None
         else
           (let n = int (foldl (\<lambda>a c. 10 * a + (of_char c - 48)) (0::nat) ds);
                v = (if neg then - n else n)
            in if - (2 ^ 63) \<le> v \<and> v < 2 ^ 63 then Some v else None))"

fun asString :: "json option \<Rightarrow> string + string" where
  "asString None = Inr []"
| "asString (Some JNull) = Inr []"
| "asString (Some (JString s)) = Inr s"
| "asString (Some j) = Inl (typeError j ''string'')"

fun asInt :: "json option \<Rightarrow> string + int" where
  "asInt None = Inr 0"
| "asInt (Some JNull) = Inr 0"
| "asInt (Some (JNumber lit)) =
     (case parseInt lit of Some i \<Rightarrow> Inr i | None \<Rightarrow> Inl (typeError (JNumber lit) ''int''))"
| "asInt (Some j) = Inl (typeError j ''int'')"

fun asSlice :: "(json \<Rightarrow> string + 'a) \<Rightarrow> json option \<Rightarrow> string + 'a list" where
  "asSlice dec None = Inr []"
| "asSlice dec (Some JNull) = Inr []"
| "asSlice dec (Some (JArray js)) = mapE dec js"
| "asSlice dec (Some j) = Inl (typeError j ''slice'')"

fun asStruct :: "((string \<times> json) list \<Rightarrow> string + 'a) \<Rightarrow> 'a \<Rightarrow> json \<Rightarrow> string + 'a" where
  \<comment> \<open>a struct value, with the zero value of the struct as second argument\<close>
  "asStruct dec zero (JObject kvs) = dec kvs"
| "asStruct dec zero JNull = Inr zero"
| "asStruct dec zero j = Inl (typeError j ''struct'')"

fun asPtr :: "((string \<times> json) list \<Rightarrow> string + 'a) \<Rightarrow> json option \<Rightarrow> string + 'a option" where
  \<comment> \<open>a pointer to a struct: \<open>nil\<close> when the key is absent or \<open>null\<close>\<close>
  "asPtr dec None = Inr None"
| "asPtr dec (Some JNull) = Inr None"
| "asPtr dec (Some (JObject kvs)) = bindE (dec kvs) (\<lambda>x. Inr (Some x))"
| "asPtr dec (Some j) = Inl (typeError j ''struct'')"

definition stringElem :: "json \<Rightarrow> string + string" where
  "stringElem j = asString (Some j)"

definition decodeAnnotation :: "(string \<times> json) list \<Rightarrow> string + Annotation" where
  "decodeAnnotation kvs =
     bindE (asString (map_of kvs ''type'')) (\<lambda>ty.
     bindE (asString (map_of kvs ''url'')) (\<lambda>url.
     bindE (asString (map_of kvs ''title'')) (\<lambda>title.
     bindE (asString (map_of kvs ''file_id'')) (\<lambda>fileID.
     bindE (asString (map_of kvs ''filename'')) (\<lambda>filename.
     bindE (asInt (map_of kvs ''start_index'')) (\<lambda>startIndex.
     bindE (asInt (map_of kvs ''end_index'')) (\<lambda>endIndex.
     Inr \<lparr>ann_Type = ty, ann_URL = url, ann_Title = title, ann_FileID = fileID,
          ann_Filename = filename, ann_StartIndex = startIndex,
          ann_EndIndex = endIndex\<rparr>)))))))"

definition zeroAnnotation :: Annotation where
  "zeroAnnotation =
     \<lparr>ann_Type = [], ann_URL = [], ann_Title = [], ann_FileID = [], ann_Filename = [],
      ann_StartIndex = 0, ann_EndIndex = 0\<rparr>"

definition decodeContentPart :: "(string \<times> json) list \<Rightarrow> string + ContentPart" where
  "decodeContentPart kvs =
     bindE (asString (map_of kvs ''type'')) (\<lambda>ty.
     bindE (asString (map_of kvs ''text'')) (\<lambda>text.
     bindE (asSlice (asStruct decodeAnnotation zeroAnnotation) (map_of kvs ''annotations''))
       (\<lambda>anns.
     Inr \<lparr>c_Type = ty, c_Text = text, c_Annotations = anns\<rparr>)))"

definition zeroContentPart :: ContentPart where
  "zeroContentPart = \<lparr>c_Type = [], c_Text = [], c_Annotations = []\<rparr>"

definition decodeSafetyCheck :: "(string \<times> json) list \<Rightarrow> string + SafetyCheck" where
  "decodeSafetyCheck kvs =
     bindE (asString (map_of kvs ''id'')) (\<lambda>ident.
     bindE (asString (map_of kvs ''code'')) (\<lambda>code.
     bindE (asString (map_of kvs ''message'')) (\<lambda>message.
     Inr \<lparr>sc_ID = ident, sc_Code = code, sc_Message = message\<rparr>)))"

definition zeroSafetyCheck :: SafetyCheck where
  "zeroSafetyCheck = \<lparr>sc_ID = [], sc_Code = [], sc_Message = []\<rparr>"

definition decodeOperation :: "(string \<times> json) list \<Rightarrow> string + PatchOperation" where
  "decodeOperation kvs =
     bindE (asString (map_of kvs ''type'')) (\<lambda>ty.
     bindE (asString (map_of kvs ''path'')) (\<lambda>path.
     bindE (asString (map_of kvs ''diff'')) (\<lambda>diff.
     Inr \<lparr>po_Type = ty, po_Path = path, po_Diff = diff\<rparr>)))"

text \<open>
  In this model the raw bytes of \<open>action\<close> are the syntax tree of the value, or \<open>None\<close>
  when the key is absent (the empty \<open>RawMessage\<close>).
\<close>

definition decodeOutputItem :: "(string \<times> json) list \<Rightarrow> string + json option OutputItem" where
  "decodeOutputItem kvs =
     bindE (asString (map_of kvs ''id'')) (\<lambda>ident.
     bindE (asString (map_of kvs ''type'')) (\<lambda>ty.
     bindE (asString (map_of kvs ''status'')) (\<lambda>status.
     bindE (asString (map_of kvs ''call_id'')) (\<lambda>callID.
     bindE (asString (map_of kvs ''role'')) (\<lambda>role.
     bindE (asSlice (asStruct decodeContentPart zeroContentPart) (map_of kvs ''content''))
       (\<lambda>content.
     bindE (asString (map_of kvs ''server_label'')) (\<lambda>serverLabel.
     bindE (asString (map_of kvs ''name'')) (\<lambda>name.
     bindE (asString (map_of kvs ''arguments'')) (\<lambda>arguments.
     bindE (asString (map_of kvs ''output'')) (\<lambda>outputText.
     bindE (asString (map_of kvs ''error'')) (\<lambda>error.
     bindE (asString (map_of kvs ''revised_prompt'')) (\<lambda>revisedPrompt.
     bindE (asString (map_of kvs ''result'')) (\<lambda>result.
     bindE (asSlice (asStruct decodeSafetyCheck zeroSafetyCheck)
              (map_of kvs ''pending_safety_checks'')) (\<lambda>checks.
     bindE (asPtr decodeOperation (map_of kvs ''operation'')) (\<lambda>operation.
     Inr \<lparr>item_ID = ident, item_Type = ty, item_Status = status, item_CallID = callID,
          item_Role = role, item_Content = content, item_ServerLabel = serverLabel,
          item_Name = name, item_Arguments = arguments, item_OutputText = outputText,
          item_Error = error, item_RevisedPrompt = revisedPrompt, item_Result = result,
          item_Action = map_of kvs ''action'', item_PendingSafetyChecks = checks,
          item_Operation = operation\<rparr>)))))))))))))))"

definition zeroOutputItem :: "json option OutputItem" where
  "zeroOutputItem =
     \<lparr>item_ID = [], item_Type = [], item_Status = [], item_CallID = [], item_Role = [],
      item_Content = [], item_ServerLabel = [], item_Name = [], item_Arguments = [],
      item_OutputText = [], item_Error = [], item_RevisedPrompt = [], item_Result = [],
      item_Action = None, item_PendingSafetyChecks = [], item_Operation = None\<rparr>"

definition decodeUsage :: "(string \<times> json) list \<Rightarrow> string + ResponsesUsage" where
  "decodeUsage kvs =
     bindE (asInt (map_of kvs ''input_tokens'')) (\<lambda>inputTokens.
     bindE (asInt (map_of kvs ''output_tokens'')) (\<lambda>outputTokens.
     bindE (asInt (map_of kvs ''total_tokens'')) (\<lambda>totalTokens.
     Inr \<lparr>InputTokens = inputTokens, OutputTokens = outputTokens,
          u_TotalTokens = totalTokens\<rparr>)))"

definition zeroUsage :: ResponsesUsage where
  "zeroUsage = \<lparr>InputTokens = 0, OutputTokens = 0, u_TotalTokens = 0\<rparr>"

definition decodeErrorObject :: "(string \<times> json) list \<Rightarrow> string + ErrorObject" where
  "decodeErrorObject kvs =
     bindE (asString (map_of kvs ''message'')) (\<lambda>message.
     bindE (asString (map_of kvs ''type'')) (\<lambda>ty.
     bindE (asString (map_of kvs ''code'')) (\<lambda>code.
     Inr \<lparr>err_Message = message, err_Type = ty, err_Code = code\<rparr>)))"

definition decodeResult :: "json \<Rightarrow> string + json option responsesResult" where
  \<comment> \<open>\<open>json.Unmarshal(body, &result)\<close> in \<open>parseResponsesResponse\<close>: a \<open>null\<close> body leaves
      the zero envelope, a body that is not an object is a type error\<close>
  "decodeResult body =
     (case body of
        JObject kvs \<Rightarrow>
          bindE (asString (map_of kvs ''id'')) (\<lambda>ident.
          bindE (asString (map_of kvs ''status'')) (\<lambda>status.
          bindE (asSlice (asStruct decodeOutputItem zeroOutputItem) (map_of kvs ''output''))
            (\<lambda>output.
          bindE (asString (map_of kvs ''output_text'')) (\<lambda>outputText.
          bindE (case map_of kvs ''usage'' of
                   None \<Rightarrow> Inr zeroUsage
                 | Some u \<Rightarrow> asStruct decodeUsage zeroUsage u) (\<lambda>usage.
          bindE (asPtr decodeErrorObject (map_of kvs ''error'')) (\<lambda>error.
          Inr \<lparr>res_ID = ident, res_Status = status, res_Output = output,
               res_OutputText = outputText, res_Usage = usage, res_Error = error\<rparr>))))))
      | JNull \<Rightarrow>
          Inr \<lparr>res_ID = [], res_Status = [], res_Output = [], res_OutputText = [],
               res_Usage = zeroUsage, res_Error = None\<rparr>
      | _ \<Rightarrow> Inl (typeError body ''struct''))"

definition decodeComputerAction :: "json option \<Rightarrow> string + ComputerAction" where
  \<comment> \<open>\<open>json.Unmarshal(item.Action, &action)\<close> for a \<open>ComputerAction\<close>\<close>
  "decodeComputerAction raw =
     (case raw of
        None \<Rightarrow> Inl ''unexpected end of JSON input''
      | Some j \<Rightarrow>
          asStruct (\<lambda>kvs.
            bindE (asString (map_of kvs ''type'')) (\<lambda>ty.
            bindE (asInt (map_of kvs ''x'')) (\<lambda>x.
            bindE (asInt (map_of kvs ''y'')) (\<lambda>y.
            bindE (asString (map_of kvs ''button'')) (\<lambda>button.
            bindE (asInt (map_of kvs ''scroll_x'')) (\<lambda>scrollX.
            bindE (asInt (map_of kvs ''scroll_y'')) (\<lambda>scrollY.
            bindE (asSlice stringElem (map_of kvs ''keys'')) (\<lambda>keys.
            bindE (asString (map_of kvs ''text'')) (\<lambda>text.
            Inr \<lparr>ca_Type = ty, ca_X = x, ca_Y = y, ca_Button = button, ca_ScrollX = scrollX,
                 ca_ScrollY = scrollY, ca_Keys = keys, ca_Text = text\<rparr>)))))))))
            \<lparr>ca_Type = [], ca_X = 0, ca_Y = 0, ca_Button = [], ca_ScrollX = 0,
             ca_ScrollY = 0, ca_Keys = [], ca_Text = []\<rparr> j)"

definition decodeShellAction :: "json option \<Rightarrow> string + ShellAction" where
  \<comment> \<open>\<open>json.Unmarshal(item.Action, &action)\<close> for a \<open>ShellAction\<close>\<close>
  "decodeShellAction raw =
     (case raw of
        None \<Rightarrow> Inl ''unexpected end of JSON input''
      | Some j \<Rightarrow>
          asStruct (\<lambda>kvs.
            bindE (asSlice stringElem (map_of kvs ''commands'')) (\<lambda>commands.
            bindE (asInt (map_of kvs ''timeout_ms'')) (\<lambda>timeoutMs.
            bindE (asInt (map_of kvs ''max_output_length'')) (\<lambda>maxOutputLength.
            Inr \<lparr>Commands = commands, TimeoutMs = timeoutMs,
                 MaxOutputLength = maxOutputLength\<rparr>))))
            \<lparr>Commands = [], TimeoutMs = 0, MaxOutputLength = 0\<rparr> j)"

definition decodeChat :: "(json \<Rightarrow> string + ToolCall) \<Rightarrow> json \<Rightarrow> string + chatResult" where
  \<comment> \<open>\<open>json.Unmarshal(body, &result)\<close> in \<open>parseResponse\<close>; the decoding of one
      \<open>ToolCall\<close>, a struct declared elsewhere, is a parameter\<close>
  "decodeChat decodeToolCall body =
     (case body of
        JObject kvs \<Rightarrow>
          bindE (asString (map_of kvs ''id'')) (\<lambda>ident.
          bindE (asSlice (\<lambda>cj. case cj of
                    JObject ckvs \<Rightarrow>
                      bindE (case map_of ckvs ''message'' of
                               Some (JObject mkvs) \<Rightarrow>
                                 bindE (asString (map_of mkvs ''role'')) (\<lambda>role.
                                 bindE (asString (map_of mkvs ''content'')) (\<lambda>content.
                                 bindE (asSlice decodeToolCall (map_of mkvs ''tool_calls''))
                                   (\<lambda>toolCalls.
                                 Inr \<lparr>msg_Role = role, msg_Content = content,
                                      msg_ToolCalls = toolCalls\<rparr>)))
                             | Some JNull \<Rightarrow>
                                 Inr \<lparr>msg_Role = [], msg_Content = [], msg_ToolCalls = []\<rparr>
                             | None \<Rightarrow>
                                 Inr \<lparr>msg_Role = [], msg_Content = [], msg_ToolCalls = []\<rparr>
                             | Some j \<Rightarrow> Inl (typeError j ''struct'')) (\<lambda>message.
                      bindE (asString (map_of ckvs ''finish_reason'')) (\<lambda>finishReason.
                      Inr \<lparr>ch_Message = message, ch_FinishReason = finishReason\<rparr>))
                  | JNull \<Rightarrow>
                      Inr \<lparr>ch_Message = \<lparr>msg_Role = [], msg_Content = [], msg_ToolCalls = []\<rparr>,
                           ch_FinishReason = []\<rparr>
                  | _ \<Rightarrow> Inl (typeError cj ''struct''))
                 (map_of kvs ''choices'')) (\<lambda>choices.
          bindE (case map_of kvs ''usage'' of
                   None \<Rightarrow> Inr \<lparr>cu_PromptTokens = 0, cu_CompletionTokens = 0,
                                 cu_TotalTokens = 0\<rparr>
                 | Some u \<Rightarrow>
                     asStruct (\<lambda>ukvs.
                       bindE (asInt (map_of ukvs ''prompt_tokens'')) (\<lambda>promptTokens.
                       bindE (asInt (map_of ukvs ''completion_tokens'')) (\<lambda>completionTokens.
                       bindE (asInt (map_of ukvs ''total_tokens'')) (\<lambda>totalTokens.
                       Inr \<lparr>cu_PromptTokens = promptTokens,
                            cu_CompletionTokens = completionTokens,
                            cu_TotalTokens = totalTokens\<rparr>))))
                       \<lparr>cu_PromptTokens = 0, cu_CompletionTokens = 0, cu_TotalTokens = 0\<rparr> u)
            (\<lambda>usage.
          bindE (asPtr decodeErrorObject (map_of kvs ''error'')) (\<lambda>error.
          Inr \<lparr>chat_ID = ident, chat_Choices = choices, chat_Usage = usage,
               chat_Error = error\<rparr>))))
      | JNull \<Rightarrow>
          Inr \<lparr>chat_ID = [], chat_Choices = [],
               chat_Usage = \<lparr>cu_PromptTokens = 0, cu_CompletionTokens = 0,
                              cu_TotalTokens = 0\<rparr>,
               chat_Error = None\<rparr>
      | _ \<Rightarrow> Inl (typeError body ''struct''))"

text \<open>The text of a tree, for \<open>string(body)\<close> in the parse error message.\<close>

fun joinWith :: "string \<Rightarrow> string list \<Rightarrow> string" where
  "joinWith sep [] = []"
| "joinWith sep [x] = x"
| "joinWith sep (x # y # zs) = x @ sep @ joinWith sep (y # zs)"

definition quote :: "string \<Rightarrow> string" where
  \<comment> \<open>a JSON string literal; only the quote and the backslash are escaped\<close>
  "quote s =
     [CHR 0x22]
       @ concat (map (\<lambda>c. if c = CHR 0x22 \<or> c = CHR 0x5C then [CHR 0x5C, c] else [c]) s)
       @ [CHR 0x22]"

fun render :: "json \<Rightarrow> string" where
  "render JNull = ''null''"
| "render (JBool b) = (if b then ''true'' else ''false'')"
| "render (JNumber lit) = lit"
| "render (JString s) = quote s"
| "render (JArray js) = ''['' @ joinWith '','' (map render js) @ '']''"
| "render (JObject kvs) =
     ''{'' @ joinWith '','' (map (\<lambda>kv. quote (fst kv) @ '':'' @ render (snd kv)) kvs) @ ''}''"

definition goJSON :: "(json \<Rightarrow> string + ToolCall) \<Rightarrow> (json, json option) jsonlib" where
  \<comment> \<open>the library calls on syntax trees\<close>
  "goJSON decodeToolCall =
     \<lparr>unmarshalResult = decodeResult,
      unmarshalChat = decodeChat decodeToolCall,
      unmarshalComputerAction = decodeComputerAction,
      unmarshalShellAction = decodeShellAction,
      rawLen = (\<lambda>raw. case raw of None \<Rightarrow> 0 | Some j \<Rightarrow> length (render j)),
      bodyString = render\<rparr>"

definition noToolCalls :: "json \<Rightarrow> string + ToolCall" where
  \<comment> \<open>a \<open>ToolCall\<close> decoder for bodies without function-tool calls\<close>
  "noToolCalls j = Inl (typeError j ''ToolCall'')"

section \<open>Sample bodies\<close>

definition helloMessage :: json where
  \<comment> \<open>\<open>{"type":"message","content":[{"type":"output_text","text":"hello"}]}\<close>\<close>
  "helloMessage =
     JObject [(''type'', JString ''message''),
              (''content'', JArray [JObject [(''type'', JString ''output_text''),
                                             (''text'', JString ''hello'')]])]"

definition helloItem :: "json option OutputItem" where
  \<comment> \<open>the decoded form of \<open>helloMessage\<close>\<close>
  "helloItem =
     zeroOutputItem
       \<lparr>item_Type := ''message'',
        item_Content := [\<lparr>c_Type = ''output_text'', c_Text = ''hello'', c_Annotations = []\<rparr>]\<rparr>"

definition mistypedBody :: json where
  \<comment> \<open>a well-formed message item followed by a tool-call item whose \<open>status\<close> is a number:
      \<open>{"output":[<helloMessage>,{"type":"web_search_call","id":"ws_1","status":5}]}\<close>\<close>
  "mistypedBody =
     JObject [(''output'', JArray
        [helloMessage,
         JObject [(''type'', JString ''web_search_call''), (''id'', JString ''ws_1''),
                  (''status'', JNumber ''5'')]])]"

definition oddItemsBody :: json where
  \<comment> \<open>a message item, an item of an unknown type, and a computer call whose action is a
      string instead of an object:
      \<open>{"output":[<helloMessage>,{"type":"made_up_call","id":"x_1"},
         {"type":"computer_call","id":"cu_1","action":"oops"}]}\<close>\<close>
  "oddItemsBody =
     JObject [(''output'', JArray
        [helloMessage,
         JObject [(''type'', JString ''made_up_call''), (''id'', JString ''x_1'')],
         JObject [(''type'', JString ''computer_call''), (''id'', JString ''cu_1''),
                  (''action'', JString ''oops'')]])]"

definition errorBody :: json where
  \<comment> \<open>an error object next to output items, text and usage:
      \<open>{"error":{"message":"Rate limit reached","type":"requests","code":"rate_limit_exceeded"},
         "output":[<helloMessage>],"output_text":"hello","usage":{"total_tokens":7},
         "choices":[{"message":{"role":"assistant","content":"hello"},"finish_reason":"stop"}]}\<close>\<close>
  "errorBody =
     JObject [(''error'', JObject [(''message'', JString ''Rate limit reached''),
                                   (''type'', JString ''requests''),
                                   (''code'', JString ''rate_limit_exceeded'')]),
              (''output'', JArray [helloMessage]),
              (''output_text'', JString ''hello''),
              (''usage'', JObject [(''total_tokens'', JNumber ''7'')]),
              (''choices'', JArray
                 [JObject [(''message'', JObject [(''role'', JString ''assistant''),
                                                  (''content'', JString ''hello'')]),
                           (''finish_reason'', JString ''stop'')]])]"

definition rateLimitError :: ErrorObject where
  "rateLimitError =
     \<lparr>err_Message = ''Rate limit reached'', err_Type = ''requests'',
      err_Code = ''rate_limit_exceeded''\<rparr>"

definition bothTextsBody :: json where
  \<comment> \<open>\<open>{"output":[<helloMessage>],"output_text":"convenience"}\<close>\<close>
  "bothTextsBody =
     JObject [(''output'', JArray [helloMessage]), (''output_text'', JString ''convenience'')]"

definition onlyOutputTextBody :: json where
  \<comment> \<open>\<open>{"output":[{"type":"reasoning","id":"rs_1"}],"output_text":"convenience"}\<close>\<close>
  "onlyOutputTextBody =
     JObject [(''output'', JArray [JObject [(''type'', JString ''reasoning''),
                                            (''id'', JString ''rs_1'')]]),
              (''output_text'', JString ''convenience'')]"

definition errorResult :: "json option responsesResult" where
  \<comment> \<open>the decoded form of \<open>errorBody\<close> as a Responses envelope\<close>
  "errorResult =
     \<lparr>res_ID = [], res_Status = [], res_Output = [helloItem], res_OutputText = ''hello'',
      res_Usage = \<lparr>InputTokens = 0, OutputTokens = 0, u_TotalTokens = 7\<rparr>,
      res_Error = Some rateLimitError\<rparr>"

definition errorChat :: chatResult where
  \<comment> \<open>the decoded form of \<open>errorBody\<close> as a chat-completions envelope\<close>
  "errorChat =
     \<lparr>chat_ID = [],
      chat_Choices = [\<lparr>ch_Message = \<lparr>msg_Role = ''assistant'', msg_Content = ''hello'',
                                        msg_ToolCalls = []\<rparr>,
                       ch_FinishReason = ''stop''\<rparr>],
      chat_Usage = \<lparr>cu_PromptTokens = 0, cu_CompletionTokens = 0, cu_TotalTokens = 7\<rparr>,
      chat_Error = Some rateLimitError\<rparr>"

definition madeUpItem :: "json option OutputItem" where
  "madeUpItem = zeroOutputItem \<lparr>item_Type := ''made_up_call'', item_ID := ''x_1''\<rparr>"

definition badActionItem :: "json option OutputItem" where
  "badActionItem =
     zeroOutputItem \<lparr>item_Type := ''computer_call'', item_ID := ''cu_1'',
                     item_Action := Some (JString ''oops'')\<rparr>"

definition reasoningItem :: "json option OutputItem" where
  "reasoningItem = zeroOutputItem \<lparr>item_Type := ''reasoning'', item_ID := ''rs_1''\<rparr>"

definition oddResult :: "json option responsesResult" where
  \<comment> \<open>the decoded form of \<open>oddItemsBody\<close>\<close>
  "oddResult =
     \<lparr>res_ID = [], res_Status = [],
      res_Output = [helloItem, madeUpItem, badActionItem],
      res_OutputText = [], res_Usage = zeroUsage, res_Error = None\<rparr>"

definition bothTextsResult :: "json option responsesResult" where
  \<comment> \<open>the decoded form of \<open>bothTextsBody\<close>\<close>
  "bothTextsResult =
     \<lparr>res_ID = [], res_Status = [], res_Output = [helloItem],
      res_OutputText = ''convenience'', res_Usage = zeroUsage, res_Error = None\<rparr>"

definition onlyOutputTextResult :: "json option responsesResult" where
  \<comment> \<open>the decoded form of \<open>onlyOutputTextBody\<close>\<close>
  "onlyOutputTextResult =
     \<lparr>res_ID = [], res_Status = [], res_Output = [reasoningItem],
      res_OutputText = ''convenience'', res_Usage = zeroUsage, res_Error = None\<rparr>"

definition mistypedErrorBody :: json where
  \<comment> \<open>an error object next to a usage counter that is a string:
      \<open>{"error":{"message":"Rate limit reached","type":"requests","code":"rate_limit_exceeded"},
         "usage":{"total_tokens":"7"}}\<close>\<close>
  "mistypedErrorBody =
     JObject [(''error'', JObject [(''message'', JString ''Rate limit reached''),
                                   (''type'', JString ''requests''),
                                   (''code'', JString ''rate_limit_exceeded'')]),
              (''usage'', JObject [(''total_tokens'', JString ''7'')])]"

section \<open>The orchestrator: \<open>SendWithMeta\<close>\<close>

text \<open>
  \<open>SendWithMeta\<close> tries the primary model and then each fallback model, each under the
  retry discipline the builder was configured with. What the function calls but does
  not define is a parameter of the model: the provider's \<open>Send\<close>, the smart-retry
  helper \<open>WithRetry\<close>, the rate-limit gate \<open>waitForRateLimit\<close>, \<open>time.Sleep\<close>, the
  validators behind \<open>runValidators\<close> and the statistics hook \<open>trackRequest\<close>. Everything
  outside the function (the provider, the clock, the gate) is one abstract world \<open>'w\<close>
  that these operations read and change; Go errors are values of an abstract type
  \<open>'e\<close>. A provider is taken to return a response whenever it returns no error, so the
  result of \<open>Send\<close> is a sum. Console output (debug and pretty printing, capability
  warnings, which \<open>checkCapability\<close> only prints) and the measured latency are not
  modelled.
\<close>

datatype event =
    RateLimitWait
  | Slept int
  | SendAttempt string

record 'w state =
  world :: 'w
  trace :: "event list"
  totalRetries :: int
  retries :: int

record 'q ProviderRequest =
  req_Model :: string
  req_Payload :: 'q

record 'e ResponseMeta =
  meta_Content :: string
  meta_Error :: "'e option"
  meta_Model :: Model
  meta_Tokens :: int
  meta_PromptTokens :: int
  meta_CompletionTokens :: int
  meta_Retries :: int
  meta_ResponsesOutput :: "ResponsesOutput option"

text \<open>
  The builder: the fields \<open>SendWithMeta\<close> branches on, and as \<open>payload\<close> what it copies
  into every request unchanged (messages, temperature, thinking level, tools, built-in
  tools, JSON mode).
\<close>

record ('q, 'c, 'val) Builder =
  model :: Model
  fallbacks :: "Model list"
  maxRetries :: int
  retryConfig :: "'c option"
  validators :: "'val list"
  payload :: 'q

record ('w, 'e, 'q, 'c, 'val) env =
  Send :: "'w \<Rightarrow> 'q ProviderRequest \<Rightarrow> ('e + ProviderResponse) \<times> 'w"
  WithRetry :: "'c \<Rightarrow> ('w state \<Rightarrow> ('e + ProviderResponse) \<times> 'w state)
                 \<Rightarrow> 'w state \<Rightarrow> ('e + ProviderResponse) \<times> 'w state"
  waitForRateLimit :: "'w \<Rightarrow> 'w"
  Sleep :: "int \<Rightarrow> 'w \<Rightarrow> 'w"
  runValidators :: "'val list \<Rightarrow> string \<Rightarrow> 'e + string"
  trackRequest :: "'e ResponseMeta \<Rightarrow> 'w \<Rightarrow> 'w"

definition int64 :: "int \<Rightarrow> int" where
  \<comment> \<open>the value of a 64-bit signed integer after wrap-around\<close>
  "int64 x = (x + 2 ^ 63) mod 2 ^ 64 - 2 ^ 63"

definition backoff :: "int \<Rightarrow> int" where
  \<comment> \<open>\<open>time.Duration(attempt*attempt) * 100 * time.Millisecond\<close>, in nanoseconds\<close>
  "backoff attempt = int64 (int64 (int64 (attempt * attempt) * 100) * 1000000)"

definition gate :: "('w, 'e, 'q, 'c, 'val) env \<Rightarrow> 'w state \<Rightarrow> 'w state" where
  \<comment> \<open>\<open>waitForRateLimit()\<close>\<close>
  "gate env s = s\<lparr>world := waitForRateLimit env (world s), trace := trace s @ [RateLimitWait]\<rparr>"

definition sleep :: "('w, 'e, 'q, 'c, 'val) env \<Rightarrow> int \<Rightarrow> 'w state \<Rightarrow> 'w state" where
  \<comment> \<open>\<open>time.Sleep(d)\<close>\<close>
  "sleep env d s = s\<lparr>world := Sleep env d (world s), trace := trace s @ [Slept d]\<rparr>"

definition send ::
  "('w, 'e, 'q, 'c, 'val) env \<Rightarrow> 'q ProviderRequest \<Rightarrow> 'w state
     \<Rightarrow> ('e + ProviderResponse) \<times> 'w state" where
  \<comment> \<open>\<open>client.provider.Send(ctx, req)\<close>\<close>
  "send env req s =
     (case Send env (world s) req of
        (r, w') \<Rightarrow> (r, s\<lparr>world := w', trace := trace s @ [SendAttempt (req_Model req)]\<rparr>))"

function legacyRetry ::
  "('w, 'e, 'q, 'c, 'val) env \<Rightarrow> int \<Rightarrow> 'q ProviderRequest \<Rightarrow> int \<Rightarrow> 'w state
     \<Rightarrow> ('e + ProviderResponse) \<times> 'w state" where
  \<comment> \<open>The loop \<open>for attempt := 0; attempt <= b.maxRetries; attempt++\<close>, from the point
      after its test. The branch that holds it is entered with \<open>b.maxRetries > 0\<close>, so
      the first test succeeds; after an attempt the loop ends on success (\<open>break\<close>) or
      when the next test fails, and \<open>resp\<close>, \<open>err\<close> are those of the attempt just made.
      Go's counter is a 64-bit \<open>int\<close>; it is unbounded here.\<close>
  "legacyRetry env n req attempt s =
     (let s1 = (if attempt > 0
                then sleep env (backoff attempt) (s\<lparr>totalRetries := totalRetries s + 1\<rparr>)
                else s);
          s2 = gate env s1
      in case send env req s2 of
           (Inr resp, s3) \<Rightarrow> (Inr resp, s3)
         | (Inl err, s3) \<Rightarrow>
             if attempt + 1 \<le> n
             then legacyRetry env n req (attempt + 1) s3
             else (Inl err, s3))"
  by pat_completeness auto
termination
  by (relation "measure (\<lambda>(env, n, req, attempt, s). nat (n - attempt))") auto

declare legacyRetry.simps [simp del]

definition retryThunk ::
  "('w, 'e, 'q, 'c, 'val) env \<Rightarrow> 'q ProviderRequest \<Rightarrow> 'w state
     \<Rightarrow> ('e + ProviderResponse) \<times> 'w state" where
  \<comment> \<open>the closure handed to \<open>WithRetry\<close>\<close>
  "retryThunk env req s =
     (let s1 = s\<lparr>retries := retries s + 1\<rparr>;
          s2 = (if retries s1 > 1 then s1\<lparr>totalRetries := totalRetries s1 + 1\<rparr> else s1)
      in send env req (gate env s2))"

definition attemptModel ::
  "('w, 'e, 'q, 'c, 'val) env \<Rightarrow> ('q, 'c, 'val) Builder \<Rightarrow> 'q ProviderRequest \<Rightarrow> 'w state
     \<Rightarrow> ('e + ProviderResponse) \<times> 'w state" where
  \<comment> \<open>one model under the active retry discipline: smart, legacy or none\<close>
  "attemptModel env b req s =
     (case retryConfig b of
        Some cfg \<Rightarrow> WithRetry env cfg (retryThunk env req) (s\<lparr>retries := 0\<rparr>)
      | None \<Rightarrow>
          if maxRetries b > 0 then legacyRetry env (maxRetries b) req 0 s
          else send env req (gate env s))"

definition failed :: "'e option \<Rightarrow> Model \<Rightarrow> int \<Rightarrow> 'e ResponseMeta" where
  \<comment> \<open>\<open>&ResponseMeta{Error: e, Model: m, Latency: \<dots>, Retries: n}\<close>\<close>
  "failed e m n =
     \<lparr>meta_Content = [], meta_Error = e, meta_Model = m, meta_Tokens = 0,
      meta_PromptTokens = 0, meta_CompletionTokens = 0, meta_Retries = n,
      meta_ResponsesOutput = None\<rparr>"

definition succeeded :: "string \<Rightarrow> Model \<Rightarrow> int \<Rightarrow> ProviderResponse \<Rightarrow> 'e ResponseMeta" where
  "succeeded content m n resp =
     \<lparr>meta_Content = content, meta_Error = None, meta_Model = m,
      meta_Tokens = TotalTokens resp, meta_PromptTokens = PromptTokens resp,
      meta_CompletionTokens = CompletionTokens resp, meta_Retries = n,
      meta_ResponsesOutput = ResponsesOutput resp\<rparr>"

fun tryModels ::
  "('w, 'e, 'q, 'c, 'val) env \<Rightarrow> ('q, 'c, 'val) Builder \<Rightarrow> Model list \<Rightarrow> 'e option
     \<Rightarrow> 'w state \<Rightarrow> 'e ResponseMeta \<times> 'w state" where
  \<comment> \<open>the loop \<open>for _, model := range models\<close> with the local \<open>lastErr\<close>, and the return
      statement after it\<close>
  "tryModels env b [] lastErr s = (failed lastErr (model b) (totalRetries s), s)"
| "tryModels env b (m # ms) lastErr s =
     (case attemptModel env b \<lparr>req_Model = m, req_Payload = payload b\<rparr> s of
        (Inr resp, s') \<Rightarrow>
          if length (validators b) > 0 then
            (case runValidators env (validators b) (Content resp) of
               Inl validationErr \<Rightarrow> (failed (Some validationErr) m (totalRetries s'), s')
             | Inr validated \<Rightarrow>
                 (let meta = succeeded validated m (totalRetries s') resp
                  in (meta, s'\<lparr>world := trackRequest env meta (world s')\<rparr>)))
          else
            (let meta = succeeded (Content resp) m (totalRetries s') resp
             in (meta, s'\<lparr>world := trackRequest env meta (world s')\<rparr>))
      | (Inl err, s') \<Rightarrow> tryModels env b ms (Some err) s')"

definition start :: "'w \<Rightarrow> 'w state" where
  "start w = \<lparr>world = w, trace = [], totalRetries = 0, retries = 0\<rparr>"

definition SendWithMeta ::
  "('w, 'e, 'q, 'c, 'val) env \<Rightarrow> ('q, 'c, 'val) Builder \<Rightarrow> 'w \<Rightarrow> 'e ResponseMeta \<times> 'w state" where
  \<comment> \<open>the chain is \<open>append([]Model{b.model}, b.fallbacks...)\<close>\<close>
  "SendWithMeta env b w = tryModels env b (model b # fallbacks b) None (start w)"

fun sends :: "event list \<Rightarrow> string list" where
  \<comment> \<open>the models of the provider attempts in a trace, in order\<close>
  "sends [] = []"
| "sends (SendAttempt m # es) = m # sends es"
| "sends (e # es) = sends es"

definition alwaysFails :: "('w, 'e, 'q, 'c, 'val) env \<Rightarrow> bool" where
  \<comment> \<open>the provider's \<open>Send\<close> returns an error on every call\<close>
  "alwaysFails env \<longleftrightarrow> (\<forall>w req. isl (fst (Send env w req)))"

section \<open>Sample executions\<close>

definition failingEnv :: "(nat, nat \<times> string, unit, unit, unit) env" where
  \<comment> \<open>a provider that fails on every call; the world counts the calls, and each error
      records the number of the call and the model asked for\<close>
  "failingEnv =
     \<lparr>Send = (\<lambda>w req. (Inl (w, req_Model req), Suc w)),
      WithRetry = (\<lambda>cfg thunk s. thunk s),
      waitForRateLimit = (\<lambda>w. w),
      Sleep = (\<lambda>d w. w),
      runValidators = (\<lambda>vs content. Inr content),
      trackRequest = (\<lambda>meta w. w)\<rparr>"

definition threeModels :: "(unit, unit, unit) Builder" where
  \<comment> \<open>a primary model with two fallbacks and \<open>Retry(1)\<close>: two attempts per model\<close>
  "threeModels =
     \<lparr>model = ''gpt-5.2'', fallbacks = [''claude-sonnet-4.5'', ''gemini-2.5-pro''],
      maxRetries = 1, retryConfig = None, validators = [], payload = ()\<rparr>"

definition unsafeResponse :: ProviderResponse where
  "unsafeResponse =
     \<lparr>Content = ''unsafe text'', ToolCalls = [], PromptTokens = 3, CompletionTokens = 2,
      TotalTokens = 5, FinishReason = ''stop'', ResponsesOutput = None\<rparr>"

definition rejectingEnv :: "(nat, string, unit, unit, unit) env" where
  \<comment> \<open>a provider that always answers, and validators that reject the answer\<close>
  "rejectingEnv =
     \<lparr>Send = (\<lambda>w req. (Inr unsafeResponse, Suc w)),
      WithRetry = (\<lambda>cfg thunk s. thunk s),
      waitForRateLimit = (\<lambda>w. w),
      Sleep = (\<lambda>d w. w),
      runValidators = (\<lambda>vs content. if content = ''unsafe text'' then Inl ''rejected''
                                     else Inr content),
      trackRequest = (\<lambda>meta w. w)\<rparr>"

definition validated :: "(unit, unit, unit) Builder" where
  \<comment> \<open>one validator, no retry, one fallback model\<close>
  "validated =
     \<lparr>model = ''gpt-5.2'', fallbacks = [''claude-sonnet-4.5''],
      maxRetries = 0, retryConfig = None, validators = [()], payload = ()\<rparr>"

section \<open>Properties of the resolver\<close>

text \<open>
  C1. For every provider type that has an entry in the model-mapping table and every
  model with a key in that provider's table, \<open>resolveModel\<close> returns exactly the string
  stored in the table: the lookup is decided before any prefix stripping, prefix
  inference or version normalisation is looked at. The table is arbitrary here, so this
  holds of the table as written and of the table after the initialiser has run.
\<close>

theorem resolveModel_table_wins:
  assumes "modelMappings providerType = Some mapping"
    and "mapping mdl = Some resolved"
  shows "resolveModel modelMappings providerType mdl = resolved"
  using assms by (simp add: resolveModel_def)

theorem resolveModel_table_wins_witness:
  "resolveModel (init [ProviderOpenAI \<mapsto> [''openai/gpt-5.2'' \<mapsto> ''table-value'']])
     ProviderAzure ''openai/gpt-5.2'' = ''table-value''
   \<and> TrimPrefix ''openai/gpt-5.2'' ''openai/'' = ''gpt-5.2''"
  using resolveModel_table_wins
    [of "init [ProviderOpenAI \<mapsto> [''openai/gpt-5.2'' \<mapsto> ''table-value'']]"
        ProviderAzure "[''openai/gpt-5.2'' \<mapsto> ''table-value'']"
        "''openai/gpt-5.2''" "''table-value''"]
  by (simp add: init_def TrimPrefix_def HasPrefix_def)

lemma of_char_is:
  "(of_char c :: nat) = of_char d \<Longrightarrow> c = d"
  by simp

lemma isDigit_imp: 
  assumes "isDigit c" shows "c \<in> set ''0123456789''"
proof -
  have "(of_char c :: nat) = 48 \<or> (of_char c :: nat) = 49 \<or> (of_char c :: nat) = 50 \<or> (of_char c :: nat) = 51
    \<or> (of_char c :: nat) = 52 \<or> (of_char c :: nat) = 53 \<or> (of_char c :: nat) = 54 \<or> (of_char c :: nat) = 55
    \<or> (of_char c :: nat) = 56 \<or> (of_char c :: nat) = 57"
    using assms unfolding isDigit_def by arith
  moreover have "(of_char c :: nat) = 48 \<Longrightarrow> c = CHR ''0''" using of_char_is [of c "CHR ''0''"] by simp
  moreover have "(of_char c :: nat) = 49 \<Longrightarrow> c = CHR ''1''" using of_char_is [of c "CHR ''1''"] by simp
  moreover have "(of_char c :: nat) = 50 \<Longrightarrow> c = CHR ''2''" using of_char_is [of c "CHR ''2''"] by simp
  moreover have "(of_char c :: nat) = 51 \<Longrightarrow> c = CHR ''3''" using of_char_is [of c "CHR ''3''"] by simp
  moreover have "(of_char c :: nat) = 52 \<Longrightarrow> c = CHR ''4''" using of_char_is [of c "CHR ''4''"] by simp
  moreover have "(of_char c :: nat) = 53 \<Longrightarrow> c = CHR ''5''" using of_char_is [of c "CHR ''5''"] by simp
  moreover have "(of_char c :: nat) = 54 \<Longrightarrow> c = CHR ''6''" using of_char_is [of c "CHR ''6''"] by simp
  moreover have "(of_char c :: nat) = 55 \<Longrightarrow> c = CHR ''7''" using of_char_is [of c "CHR ''7''"] by simp
  moreover have "(of_char c :: nat) = 56 \<Longrightarrow> c = CHR ''8''" using of_char_is [of c "CHR ''8''"] by simp
  moreover have "(of_char c :: nat) = 57 \<Longrightarrow> c = CHR ''9''" using of_char_is [of c "CHR ''9''"] by simp
  ultimately show ?thesis by (simp only: list.set insert_iff) blast
qed

lemma isDigit_iff: "isDigit c \<longleftrightarrow> c \<in> set ''0123456789''"
proof
  assume "isDigit c" then show "c \<in> set ''0123456789''" by (rule isDigit_imp)
next
  assume "c \<in> set ''0123456789''"
  then have "c = CHR ''0'' \<or> c = CHR ''1'' \<or> c = CHR ''2'' \<or> c = CHR ''3'' \<or> c = CHR ''4''
     \<or> c = CHR ''5'' \<or> c = CHR ''6'' \<or> c = CHR ''7'' \<or> c = CHR ''8'' \<or> c = CHR ''9''"
    by (simp only: list.set insert_iff empty_iff) blast
  then show "isDigit c" unfolding isDigit_def by (elim disjE) simp_all
qed

lemma dash_dash: "dash Q (dash P a) = dash (P \<or> Q) a"
  by (simp add: dash_def)

lemma ReplaceAll_Nil: "ReplaceAll [] old new = []"
  by (simp add: ReplaceAll.simps)

lemma ReplaceAll_dot_step:
  assumes "d \<noteq> CHR ''.''"
  shows "ReplaceAll (a # s) [CHR ''.'', d] [CHR ''-'', d] =
           dash (nextIs d s) a
             # ReplaceAll s [CHR ''.'', d] [CHR ''-'', d]"
proof (cases "a = CHR ''.'' \<and> nextIs d s")
  case True
  then obtain t where s: "s = d # t" by (cases s) (auto simp: nextIs_def)
  have "ReplaceAll (a # s) [CHR ''.'', d] [CHR ''-'', d]
          = CHR ''-'' # d # ReplaceAll t [CHR ''.'', d] [CHR ''-'', d]"
    using True s by (subst ReplaceAll.simps) simp
  moreover have "ReplaceAll s [CHR ''.'', d] [CHR ''-'', d]
          = d # ReplaceAll t [CHR ''.'', d] [CHR ''-'', d]"
    using assms s by (subst ReplaceAll.simps) simp
  ultimately show ?thesis using True by (simp add: dash_def)
next
  case False
  then have "\<not> prefix [CHR ''.'', d] (a # s)"
    by (cases s) (auto simp: nextIs_def)
  then show ?thesis using False by (subst ReplaceAll.simps) (auto simp: dash_def)
qed

lemma nextIs_ReplaceAll:
  assumes "d \<noteq> CHR ''.''" "e \<noteq> CHR ''.''" "e \<noteq> CHR ''-''"
  shows "nextIs e (ReplaceAll s [CHR ''.'', d] [CHR ''-'', d]) = nextIs e s"
proof (cases s)
  case Nil
  then show ?thesis by (simp add: ReplaceAll_Nil)
next
  case (Cons b t)
  then show ?thesis using assms by (auto simp: ReplaceAll_dot_step nextIs_def dash_def)
qed

lemma isDigit_hd: "(s \<noteq> [] \<and> isDigit (hd s)) \<longleftrightarrow>
  (nextIs CHR ''1'' s \<or> nextIs CHR ''5'' s \<or> nextIs CHR ''7'' s \<or> nextIs CHR ''0'' s \<or> nextIs CHR ''2'' s
   \<or> nextIs CHR ''3'' s \<or> nextIs CHR ''4'' s \<or> nextIs CHR ''6'' s \<or> nextIs CHR ''8'' s \<or> nextIs CHR ''9'' s)"
  unfolding isDigit_iff nextIs_def by (simp only: list.set insert_iff empty_iff) blast

lemma replaceDots_Cons:
  "replaceDots (a # s) = dash (s \<noteq> [] \<and> isDigit (hd s)) a # replaceDots s"
  unfolding isDigit_hd
  by (simp add: replaceDots_def Let_def ReplaceAll_dot_step nextIs_ReplaceAll dash_dash disj_ac)

lemma replaceDots_eq: "replaceDots s = dotsToDashes s"
  by (induction s) (simp_all add: replaceDots_Cons dash_def, simp add: replaceDots_def ReplaceAll_Nil)

lemma dotsToDashes_id: "\<not> hasDottedVersion s \<Longrightarrow> dotsToDashes s = s"
  by (induction s) auto

lemma IndexByte_None: "c \<notin> set s \<Longrightarrow> IndexByte s c = None"
  by (induction s) auto

lemma stripAnthropic_id:
  "\<not> HasPrefix mdl ''anthropic/'' \<Longrightarrow> CHR '':'' \<notin> set mdl \<Longrightarrow> stripAnthropic mdl = mdl"
  by (simp add: stripAnthropic_def CutPrefix_def IndexByte_None)

lemma normalizeAnthropicModelID_spec:
  "normalizeAnthropicModelID mdl =
     (case map_of anthropicSnapshots (stripAnthropic mdl) of
        Some v \<Rightarrow> v
      | None \<Rightarrow> dotsToDashes (stripAnthropic mdl))"
proof -
  have "normalizeAnthropicModelID mdl =
     (case map_of anthropicSnapshots (stripAnthropic mdl) of
        Some v \<Rightarrow> v
      | None \<Rightarrow> replaceDots (stripAnthropic mdl))"
    unfolding normalizeAnthropicModelID_def stripAnthropic_def replaceDots_def
      anthropicSnapshots_def Let_def
    by (simp only: map_of.simps fst_conv snd_conv fun_upd_apply option.case if_distrib
        cong: if_cong) simp
  then show ?thesis by (simp only: replaceDots_eq)
qed

lemma resolveModel_anthropic:
  "tableEntry modelMappings ProviderAnthropic mdl = None \<Longrightarrow>
   resolveModel modelMappings ProviderAnthropic mdl = normalizeAnthropicModelID mdl"
  by (simp add: resolveModel_def tableEntry_def ProviderAnthropic_def ProviderOpenAI_def
      ProviderAzure_def ProviderOpenRouter_def)


text \<open>
  C7. Resolution for the Anthropic backend of a model that is not a key of the Anthropic
  table. Once the vendor prefix \<open>anthropic/\<close> and a routing suffix after a colon are
  removed: a shorthand with an explicit entry in the shorthand-to-snapshot mapping
  resolves to its dated snapshot; every other string has each dot that is directly
  followed by a digit replaced by a dash and nothing else changed; and a string with no
  prefix, no colon, no explicit entry and no dotted version is returned as it is. The
  resolver is a total function, so it returns a string on every input.
\<close>

theorem resolveModel_anthropic_normalizes:
  assumes "tableEntry modelMappings ProviderAnthropic mdl = None"
  shows "(map_of anthropicSnapshots (stripAnthropic mdl) = Some snapshot \<longrightarrow>
            resolveModel modelMappings ProviderAnthropic mdl = snapshot)
       \<and> (map_of anthropicSnapshots (stripAnthropic mdl) = None \<longrightarrow>
            resolveModel modelMappings ProviderAnthropic mdl
              = dotsToDashes (stripAnthropic mdl))
       \<and> (\<not> HasPrefix mdl ''anthropic/'' \<and> CHR '':'' \<notin> set mdl
            \<and> map_of anthropicSnapshots mdl = None \<and> \<not> hasDottedVersion mdl \<longrightarrow>
            resolveModel modelMappings ProviderAnthropic mdl = mdl)"
proof -
  have r: "resolveModel modelMappings ProviderAnthropic mdl =
     (case map_of anthropicSnapshots (stripAnthropic mdl) of
        Some v \<Rightarrow> v
      | None \<Rightarrow> dotsToDashes (stripAnthropic mdl))"
    using assms by (simp only: resolveModel_anthropic normalizeAnthropicModelID_spec)
  have a: "map_of anthropicSnapshots (stripAnthropic mdl) = Some snapshot \<longrightarrow>
            resolveModel modelMappings ProviderAnthropic mdl = snapshot"
    by (simp add: r)
  have b: "map_of anthropicSnapshots (stripAnthropic mdl) = None \<longrightarrow>
            resolveModel modelMappings ProviderAnthropic mdl
              = dotsToDashes (stripAnthropic mdl)"
    by (simp add: r)
  have c: "\<not> HasPrefix mdl ''anthropic/'' \<and> CHR '':'' \<notin> set mdl
            \<and> map_of anthropicSnapshots mdl = None \<and> \<not> hasDottedVersion mdl \<longrightarrow>
            resolveModel modelMappings ProviderAnthropic mdl = mdl"
    by (simp add: r stripAnthropic_id dotsToDashes_id)
  from a b c show ?thesis by blast
qed

theorem resolveModel_anthropic_normalizes_witness:
  "resolveModel Map.empty ProviderAnthropic ''anthropic/claude-opus-4.1''
     = ''claude-opus-4-1-20250805''
   \<and> resolveModel Map.empty ProviderAnthropic ''claude-sonnet-4.5:thinking''
     = ''claude-sonnet-4-5-20250929''
   \<and> resolveModel Map.empty ProviderAnthropic ''anthropic/claude-opus-4.6''
     = ''claude-opus-4-6''
   \<and> resolveModel Map.empty ProviderAnthropic ''claude-sonnet-4-5-20250929''
     = ''claude-sonnet-4-5-20250929''"
proof -
  have t: "tableEntry Map.empty ProviderAnthropic m = None" for m
    by (simp add: tableEntry_def)
  have s1: "stripAnthropic ''anthropic/claude-opus-4.1'' = ''claude-opus-4.1''"
    by (simp add: stripAnthropic_def CutPrefix_def HasPrefix_def)
  have s2: "stripAnthropic ''claude-sonnet-4.5:thinking'' = ''claude-sonnet-4.5''"
    by (simp add: stripAnthropic_def CutPrefix_def HasPrefix_def)
  have s3: "stripAnthropic ''anthropic/claude-opus-4.6'' = ''claude-opus-4.6''"
    by (simp add: stripAnthropic_def CutPrefix_def HasPrefix_def)
  have d3: "dotsToDashes ''claude-opus-4.6'' = ''claude-opus-4-6''"
    by (simp add: isDigit_def)
  have h4: "\<not> hasDottedVersion ''claude-sonnet-4-5-20250929''"
    by simp
  have 1: "resolveModel Map.empty ProviderAnthropic ''anthropic/claude-opus-4.1''
     = ''claude-opus-4-1-20250805''"
    using resolveModel_anthropic_normalizes
      [OF t, of "''anthropic/claude-opus-4.1''" "''claude-opus-4-1-20250805''"]
    by (simp add: s1 anthropicSnapshots_def)
  have 2: "resolveModel Map.empty ProviderAnthropic ''claude-sonnet-4.5:thinking''
     = ''claude-sonnet-4-5-20250929''"
    using resolveModel_anthropic_normalizes
      [OF t, of "''claude-sonnet-4.5:thinking''" "''claude-sonnet-4-5-20250929''"]
    by (simp add: s2 anthropicSnapshots_def)
  have 3: "resolveModel Map.empty ProviderAnthropic ''anthropic/claude-opus-4.6''
     = ''claude-opus-4-6''"
    using resolveModel_anthropic_normalizes [OF t, of "''anthropic/claude-opus-4.6''" "''''"]
    by (simp add: s3 d3 anthropicSnapshots_def isDigit_def)
  have 4: "resolveModel Map.empty ProviderAnthropic ''claude-sonnet-4-5-20250929''
     = ''claude-sonnet-4-5-20250929''"
    using resolveModel_anthropic_normalizes [OF t, of "''claude-sonnet-4-5-20250929''" "''''"] h4
    by (simp add: HasPrefix_def anthropicSnapshots_def)
  from 1 2 3 4 show ?thesis by blast
qed

section \<open>Properties of the outbound tool translation\<close>

lemma dom_setStr: "dom (setStr k s tool) \<subseteq> insert k (dom tool)"
  by (auto simp: setStr_def)

lemma dom_setPos: "dom (setPos k i tool) \<subseteq> insert k (dom tool)"
  by (auto simp: setPos_def)

lemma dom_setList: "dom (setList k l tool) \<subseteq> insert k (dom tool)"
  by (auto simp: setList_def)

lemma dom_setPtr: "dom (setPtr k w p tool) \<subseteq> insert k (dom tool)"
  by (auto simp: setPtr_def split: option.splits)

lemma zerosOnlyAt_setStr: "zerosOnlyAt e tool \<Longrightarrow> zerosOnlyAt e (setStr k s tool)"
  by (simp add: zerosOnlyAt_def setStr_def)

lemma zerosOnlyAt_setPos: "zerosOnlyAt e tool \<Longrightarrow> zerosOnlyAt e (setPos k i tool)"
  by (simp add: zerosOnlyAt_def setPos_def)

lemma zerosOnlyAt_setList: "zerosOnlyAt e tool \<Longrightarrow> zerosOnlyAt e (setList k l tool)"
  by (simp add: zerosOnlyAt_def setList_def)

lemma zerosOnlyAt_setPtr:
  "zerosOnlyAt e tool \<Longrightarrow> k \<in> set pointerFields \<Longrightarrow> zerosOnlyAt e (setPtr k w p tool)"
  by (simp add: zerosOnlyAt_def setPtr_def split: option.splits)

lemma zerosOnlyAt_type: "zerosOnlyAt e [''type'' \<mapsto> v]"
  by (simp add: zerosOnlyAt_def)

lemmas zerosOnlyAt_intros =
  zerosOnlyAt_setStr zerosOnlyAt_setPos zerosOnlyAt_setList zerosOnlyAt_setPtr zerosOnlyAt_type

lemma type_setStr: "k \<noteq> ''type'' \<Longrightarrow> setStr k s tool ''type'' = tool ''type''"
  by (simp add: setStr_def)

lemma type_setPos: "k \<noteq> ''type'' \<Longrightarrow> setPos k i tool ''type'' = tool ''type''"
  by (simp add: setPos_def)

lemma type_setList: "k \<noteq> ''type'' \<Longrightarrow> setList k l tool ''type'' = tool ''type''"
  by (simp add: setList_def)

lemma type_setPtr: "k \<noteq> ''type'' \<Longrightarrow> setPtr k w p tool ''type'' = tool ''type''"
  by (simp add: setPtr_def split: option.splits)

lemma buildBuiltinTool_type: "buildBuiltinTool bt ''type'' = Some (WString (Type bt))"
  by (simp add: buildBuiltinTool_def Let_def type_setStr type_setPos type_setList type_setPtr)

lemma buildBuiltinTool_zerosOnlyAt: "zerosOnlyAt e (buildBuiltinTool bt)"
  unfolding buildBuiltinTool_def Let_def
  by (simp add: zerosOnlyAt_intros pointerFields_def)

lemma dom_setStr_in: "dom tool \<subseteq> S \<Longrightarrow> k \<in> S \<Longrightarrow> dom (setStr k s tool) \<subseteq> S"
  using dom_setStr [of k s tool] by blast

lemma dom_setPos_in: "dom tool \<subseteq> S \<Longrightarrow> k \<in> S \<Longrightarrow> dom (setPos k i tool) \<subseteq> S"
  using dom_setPos [of k i tool] by blast

lemma dom_setList_in: "dom tool \<subseteq> S \<Longrightarrow> k \<in> S \<Longrightarrow> dom (setList k l tool) \<subseteq> S"
  using dom_setList [of k l tool] by blast

lemma dom_setPtr_in: "dom tool \<subseteq> S \<Longrightarrow> k \<in> S \<Longrightarrow> dom (setPtr k w p tool) \<subseteq> S"
  using dom_setPtr [of k w p tool] by blast

lemmas dom_in = dom_setStr_in dom_setPos_in dom_setList_in dom_setPtr_in

lemma dom_web_search:
  "Type bt = ''web_search'' \<Longrightarrow>
   dom (buildBuiltinTool bt) \<subseteq> {''type'', ''user_location'', ''filters''}"
  unfolding buildBuiltinTool_def Let_def
  by (simp del: fun_upd_apply) (intro dom_in; simp)

lemma dom_file_search:
  "Type bt = ''file_search'' \<Longrightarrow>
   dom (buildBuiltinTool bt)
     \<subseteq> {''type'', ''vector_store_ids'', ''max_num_results'', ''filters''}"
  unfolding buildBuiltinTool_def Let_def
  by (simp del: fun_upd_apply) (intro dom_in; simp)

lemma dom_code_interpreter:
  "Type bt = ''code_interpreter'' \<Longrightarrow>
   dom (buildBuiltinTool bt) \<subseteq> {''type'', ''container''}"
  unfolding buildBuiltinTool_def Let_def
  by (simp del: fun_upd_apply) (intro dom_in; simp)

lemma dom_mcp:
  "Type bt = ''mcp'' \<Longrightarrow>
   dom (buildBuiltinTool bt)
     \<subseteq> {''type'', ''server_label'', ''server_url'', ''server_description'',
         ''connector_id'', ''authorization'', ''require_approval'', ''allowed_tools''}"
  unfolding buildBuiltinTool_def Let_def
  by (simp del: fun_upd_apply) (intro dom_in; simp)

lemma dom_image_generation:
  "Type bt = ''image_generation'' \<Longrightarrow>
   dom (buildBuiltinTool bt)
     \<subseteq> {''type'', ''size'', ''quality'', ''output_format'', ''compression'',
         ''background'', ''partial_images''}"
  unfolding buildBuiltinTool_def Let_def
  by (simp del: fun_upd_apply) (intro dom_in; simp)

lemma dom_computer_use:
  "Type bt = ''computer_use_preview'' \<Longrightarrow>
   dom (buildBuiltinTool bt)
     \<subseteq> {''type'', ''display_width'', ''display_height'', ''environment''}"
  unfolding buildBuiltinTool_def Let_def
  by (simp del: fun_upd_apply) (intro dom_in; simp)

lemma only_discriminator:
  "Type bt = ''shell'' \<or> Type bt = ''apply_patch'' \<or> Type bt \<notin> set recognizedTags \<Longrightarrow>
   buildBuiltinTool bt = [''type'' \<mapsto> WString (Type bt)]"
  unfolding buildBuiltinTool_def Let_def recognizedTags_def
  by auto

lemma setStr_apply:
  "setStr k s tool k' = (if k' = k \<and> s \<noteq> [] then Some (WString s) else tool k')"
  by (simp add: setStr_def)

lemma setPos_apply:
  "setPos k i tool k' = (if k' = k \<and> i > 0 then Some (WInt i) else tool k')"
  by (simp add: setPos_def)

lemma setList_apply:
  "setList k l tool k' = (if k' = k \<and> l \<noteq> [] then Some (WStrings l) else tool k')"
  by (simp add: setList_def)

lemma setPtr_apply:
  "setPtr k w p tool k' = (if k' = k \<and> p \<noteq> None then map_option w p else tool k')"
  by (simp add: setPtr_def split: option.splits)

lemmas set_apply = setStr_apply setPos_apply setList_apply setPtr_apply

lemma fields_web_search:
  "Type bt = ''web_search'' \<Longrightarrow>
   buildBuiltinTool bt ''user_location'' = map_option WUserLocation (UserLocation bt)
   \<and> buildBuiltinTool bt ''filters'' = map_option WSearchFilter (SearchFilter bt)"
  by (simp add: buildBuiltinTool_def Let_def set_apply)

lemma fields_file_search:
  "Type bt = ''file_search'' \<Longrightarrow>
   buildBuiltinTool bt ''vector_store_ids'' = listField (VectorStoreIDs bt)
   \<and> buildBuiltinTool bt ''max_num_results'' = posField (MaxNumResults bt)
   \<and> buildBuiltinTool bt ''filters'' = map_option WAny (FileFilter bt)"
  by (simp add: buildBuiltinTool_def Let_def set_apply listField_def posField_def)

lemma fields_code_interpreter:
  "Type bt = ''code_interpreter'' \<Longrightarrow>
   buildBuiltinTool bt ''container'' = map_option WAny (Container bt)"
  by (simp add: buildBuiltinTool_def Let_def set_apply)

lemma fields_mcp:
  "Type bt = ''mcp'' \<Longrightarrow>
   buildBuiltinTool bt ''server_label'' = strField (ServerLabel bt)
   \<and> buildBuiltinTool bt ''server_url'' = strField (ServerURL bt)
   \<and> buildBuiltinTool bt ''server_description'' = strField (ServerDescription bt)
   \<and> buildBuiltinTool bt ''connector_id'' = strField (ConnectorID bt)
   \<and> buildBuiltinTool bt ''authorization'' = strField (Authorization bt)
   \<and> buildBuiltinTool bt ''require_approval'' = map_option WAny (RequireApproval bt)
   \<and> buildBuiltinTool bt ''allowed_tools'' = listField (AllowedTools bt)"
  by (simp add: buildBuiltinTool_def Let_def set_apply listField_def strField_def)

lemma fields_image_generation:
  "Type bt = ''image_generation'' \<Longrightarrow>
   buildBuiltinTool bt ''size'' = strField (ImageSize bt)
   \<and> buildBuiltinTool bt ''quality'' = strField (ImageQuality bt)
   \<and> buildBuiltinTool bt ''output_format'' = strField (ImageFormat bt)
   \<and> buildBuiltinTool bt ''compression'' = posField (ImageCompression bt)
   \<and> buildBuiltinTool bt ''background'' = strField (ImageBackground bt)
   \<and> buildBuiltinTool bt ''partial_images'' = posField (PartialImages bt)"
  by (simp add: buildBuiltinTool_def Let_def set_apply posField_def strField_def)

lemma fields_computer_use:
  "Type bt = ''computer_use_preview'' \<Longrightarrow>
   buildBuiltinTool bt ''display_width'' = posField (DisplayWidth bt)
   \<and> buildBuiltinTool bt ''display_height'' = posField (DisplayHeight bt)
   \<and> buildBuiltinTool bt ''environment'' = strField (Environment bt)"
  by (simp add: buildBuiltinTool_def Let_def set_apply posField_def strField_def)


lemma noZeroFieldD:
  assumes "noZeroField e tool" and "k \<noteq> ''type''" and "tool k = Some v"
  shows "\<not> isZero e v"
proof -
  from assms(1) have "\<forall>k v. k \<noteq> ''type'' \<and> tool k = Some v \<longrightarrow> \<not> isZero e v"
    unfolding noZeroField_def .
  then have "\<forall>v. k \<noteq> ''type'' \<and> tool k = Some v \<longrightarrow> \<not> isZero e v"
    by (rule spec)
  then have "k \<noteq> ''type'' \<and> tool k = Some v \<longrightarrow> \<not> isZero e v"
    by (rule spec)
  with assms(2,3) show ?thesis
    by simp
qed

text \<open>
  C5 as stated does not hold of the code. The optional fields \<open>UserLocation\<close>,
  \<open>SearchFilter\<close>, \<open>FileFilter\<close>, \<open>Container\<close> and \<open>RequireApproval\<close> are pointers or
  interface values, and the guard on them is \<open>!= nil\<close>: a value that is not \<open>nil\<close> is
  passed on however empty it is. The builder method \<open>FileSearchWith\<close> copies its
  \<open>Filters\<close> option unchecked, so with the empty string as filter the wire object holds
  \<open>filters\<close> with an empty string, where the claim wants the field absent.
\<close>

theorem empty_interface_field_counterexample:
  "buildBuiltinTool
     (FileSearchWith \<lparr>fso_VectorStoreIDs = [], fso_MaxNumResults = 0, fso_Filters = Some []\<rparr>
        :: string BuiltinTool)
     = [''type'' \<mapsto> WString ''file_search'', ''filters'' \<mapsto> WAny []]
   \<and> \<not> noZeroField emptyString
        (buildBuiltinTool
           (FileSearchWith \<lparr>fso_VectorStoreIDs = [], fso_MaxNumResults = 0,
                            fso_Filters = Some []\<rparr> :: string BuiltinTool))"
proof -
  let ?bt = "FileSearchWith \<lparr>fso_VectorStoreIDs = [], fso_MaxNumResults = 0,
                             fso_Filters = Some []\<rparr> :: string BuiltinTool"
  have v: "buildBuiltinTool ?bt
             = [''type'' \<mapsto> WString ''file_search'', ''filters'' \<mapsto> WAny []]"
    by (simp add: buildBuiltinTool_def FileSearchWith_def emptyTool_def setPtr_def setPos_def
        setList_def)
  have k: "''filters'' \<noteq> ''type''"
    by simp
  have f: "buildBuiltinTool ?bt ''filters'' = Some (WAny [])"
    unfolding v by simp
  have z: "isZero emptyString (WAny ([] :: string))"
    by (simp add: emptyString_def)
  have "\<not> noZeroField emptyString (buildBuiltinTool ?bt)"
  proof
    assume "noZeroField emptyString (buildBuiltinTool ?bt)"
    from noZeroFieldD [OF this k f] z show False
      by (rule notE)
  qed
  with v show ?thesis
    by (rule conjI)
qed

text \<open>
  C5, amended. The wire object of a tool with a recognised tag holds the discriminator
  \<open>type\<close> with the tag as its value; its other fields are among the wire fields of that
  tag, so a field of another tag never appears, whatever the struct's other fields
  hold; for \<open>shell\<close> and \<open>apply_patch\<close> the object is the discriminator alone. Each string
  field is on the wire exactly when it is not empty, each integer field exactly when it
  is positive, each slice field exactly when its length is not zero, and each pointer or
  interface field (\<open>user_location\<close>, \<open>filters\<close>, \<open>container\<close>, \<open>require_approval\<close>)
  exactly when it is not \<open>nil\<close>, with the value it holds passed on unchanged. So an
  empty or zero value can appear under these four fields only, whatever counts as
  empty among the values an interface holds.
\<close>

theorem buildBuiltinTool_fields:
  "buildBuiltinTool bt ''type'' = Some (WString (Type bt))
   \<and> zerosOnlyAt emptyAny (buildBuiltinTool bt)
   \<and> (Type bt = ''web_search'' \<longrightarrow>
        dom (buildBuiltinTool bt) \<subseteq> {''type'', ''user_location'', ''filters''}
        \<and> buildBuiltinTool bt ''user_location'' = map_option WUserLocation (UserLocation bt)
        \<and> buildBuiltinTool bt ''filters'' = map_option WSearchFilter (SearchFilter bt))
   \<and> (Type bt = ''file_search'' \<longrightarrow>
        dom (buildBuiltinTool bt)
          \<subseteq> {''type'', ''vector_store_ids'', ''max_num_results'', ''filters''}
        \<and> buildBuiltinTool bt ''vector_store_ids'' = listField (VectorStoreIDs bt)
        \<and> buildBuiltinTool bt ''max_num_results'' = posField (MaxNumResults bt)
        \<and> buildBuiltinTool bt ''filters'' = map_option WAny (FileFilter bt))
   \<and> (Type bt = ''code_interpreter'' \<longrightarrow>
        dom (buildBuiltinTool bt) \<subseteq> {''type'', ''container''}
        \<and> buildBuiltinTool bt ''container'' = map_option WAny (Container bt))
   \<and> (Type bt = ''mcp'' \<longrightarrow>
        dom (buildBuiltinTool bt)
          \<subseteq> {''type'', ''server_label'', ''server_url'', ''server_description'',
              ''connector_id'', ''authorization'', ''require_approval'', ''allowed_tools''}
        \<and> buildBuiltinTool bt ''server_label'' = strField (ServerLabel bt)
        \<and> buildBuiltinTool bt ''server_url'' = strField (ServerURL bt)
        \<and> buildBuiltinTool bt ''server_description'' = strField (ServerDescription bt)
        \<and> buildBuiltinTool bt ''connector_id'' = strField (ConnectorID bt)
        \<and> buildBuiltinTool bt ''authorization'' = strField (Authorization bt)
        \<and> buildBuiltinTool bt ''require_approval'' = map_option WAny (RequireApproval bt)
        \<and> buildBuiltinTool bt ''allowed_tools'' = listField (AllowedTools bt))
   \<and> (Type bt = ''image_generation'' \<longrightarrow>
        dom (buildBuiltinTool bt)
          \<subseteq> {''type'', ''size'', ''quality'', ''output_format'', ''compression'',
              ''background'', ''partial_images''}
        \<and> buildBuiltinTool bt ''size'' = strField (ImageSize bt)
        \<and> buildBuiltinTool bt ''quality'' = strField (ImageQuality bt)
        \<and> buildBuiltinTool bt ''output_format'' = strField (ImageFormat bt)
        \<and> buildBuiltinTool bt ''compression'' = posField (ImageCompression bt)
        \<and> buildBuiltinTool bt ''background'' = strField (ImageBackground bt)
        \<and> buildBuiltinTool bt ''partial_images'' = posField (PartialImages bt))
   \<and> (Type bt = ''computer_use_preview'' \<longrightarrow>
        dom (buildBuiltinTool bt)
          \<subseteq> {''type'', ''display_width'', ''display_height'', ''environment''}
        \<and> buildBuiltinTool bt ''display_width'' = posField (DisplayWidth bt)
        \<and> buildBuiltinTool bt ''display_height'' = posField (DisplayHeight bt)
        \<and> buildBuiltinTool bt ''environment'' = strField (Environment bt))
   \<and> (Type bt = ''shell'' \<longrightarrow> buildBuiltinTool bt = [''type'' \<mapsto> WString ''shell''])
   \<and> (Type bt = ''apply_patch'' \<longrightarrow>
        buildBuiltinTool bt = [''type'' \<mapsto> WString ''apply_patch''])"
proof -
  have 1: "buildBuiltinTool bt ''type'' = Some (WString (Type bt))"
    by (rule buildBuiltinTool_type)
  have 2: "zerosOnlyAt emptyAny (buildBuiltinTool bt)"
    by (rule buildBuiltinTool_zerosOnlyAt)
  have 3: "Type bt = ''web_search'' \<longrightarrow>
        dom (buildBuiltinTool bt) \<subseteq> {''type'', ''user_location'', ''filters''}
        \<and> buildBuiltinTool bt ''user_location'' = map_option WUserLocation (UserLocation bt)
        \<and> buildBuiltinTool bt ''filters'' = map_option WSearchFilter (SearchFilter bt)"
    by (intro impI conjI dom_web_search fields_web_search [THEN conjunct1]
        fields_web_search [THEN conjunct2])
  have 4: "Type bt = ''file_search'' \<longrightarrow>
        dom (buildBuiltinTool bt)
          \<subseteq> {''type'', ''vector_store_ids'', ''max_num_results'', ''filters''}
        \<and> buildBuiltinTool bt ''vector_store_ids'' = listField (VectorStoreIDs bt)
        \<and> buildBuiltinTool bt ''max_num_results'' = posField (MaxNumResults bt)
        \<and> buildBuiltinTool bt ''filters'' = map_option WAny (FileFilter bt)"
  proof (rule impI)
    assume t: "Type bt = ''file_search''"
    from dom_file_search [OF t] fields_file_search [OF t]
    show "dom (buildBuiltinTool bt)
          \<subseteq> {''type'', ''vector_store_ids'', ''max_num_results'', ''filters''}
        \<and> buildBuiltinTool bt ''vector_store_ids'' = listField (VectorStoreIDs bt)
        \<and> buildBuiltinTool bt ''max_num_results'' = posField (MaxNumResults bt)
        \<and> buildBuiltinTool bt ''filters'' = map_option WAny (FileFilter bt)"
      by (rule conjI)
  qed
  have 5: "Type bt = ''code_interpreter'' \<longrightarrow>
        dom (buildBuiltinTool bt) \<subseteq> {''type'', ''container''}
        \<and> buildBuiltinTool bt ''container'' = map_option WAny (Container bt)"
    by (intro impI conjI dom_code_interpreter fields_code_interpreter)
  have 6: "Type bt = ''mcp'' \<longrightarrow>
        dom (buildBuiltinTool bt)
          \<subseteq> {''type'', ''server_label'', ''server_url'', ''server_description'',
              ''connector_id'', ''authorization'', ''require_approval'', ''allowed_tools''}
        \<and> buildBuiltinTool bt ''server_label'' = strField (ServerLabel bt)
        \<and> buildBuiltinTool bt ''server_url'' = strField (ServerURL bt)
        \<and> buildBuiltinTool bt ''server_description'' = strField (ServerDescription bt)
        \<and> buildBuiltinTool bt ''connector_id'' = strField (ConnectorID bt)
        \<and> buildBuiltinTool bt ''authorization'' = strField (Authorization bt)
        \<and> buildBuiltinTool bt ''require_approval'' = map_option WAny (RequireApproval bt)
        \<and> buildBuiltinTool bt ''allowed_tools'' = listField (AllowedTools bt)"
  proof (rule impI)
    assume t: "Type bt = ''mcp''"
    from dom_mcp [OF t] fields_mcp [OF t]
    show "dom (buildBuiltinTool bt)
          \<subseteq> {''type'', ''server_label'', ''server_url'', ''server_description'',
              ''connector_id'', ''authorization'', ''require_approval'', ''allowed_tools''}
        \<and> buildBuiltinTool bt ''server_label'' = strField (ServerLabel bt)
        \<and> buildBuiltinTool bt ''server_url'' = strField (ServerURL bt)
        \<and> buildBuiltinTool bt ''server_description'' = strField (ServerDescription bt)
        \<and> buildBuiltinTool bt ''connector_id'' = strField (ConnectorID bt)
        \<and> buildBuiltinTool bt ''authorization'' = strField (Authorization bt)
        \<and> buildBuiltinTool bt ''require_approval'' = map_option WAny (RequireApproval bt)
        \<and> buildBuiltinTool bt ''allowed_tools'' = listField (AllowedTools bt)"
      by (rule conjI)
  qed
  have 7: "Type bt = ''image_generation'' \<longrightarrow>
        dom (buildBuiltinTool bt)
          \<subseteq> {''type'', ''size'', ''quality'', ''output_format'', ''compression'',
              ''background'', ''partial_images''}
        \<and> buildBuiltinTool bt ''size'' = strField (ImageSize bt)
        \<and> buildBuiltinTool bt ''quality'' = strField (ImageQuality bt)
        \<and> buildBuiltinTool bt ''output_format'' = strField (ImageFormat bt)
        \<and> buildBuiltinTool bt ''compression'' = posField (ImageCompression bt)
        \<and> buildBuiltinTool bt ''background'' = strField (ImageBackground bt)
        \<and> buildBuiltinTool bt ''partial_images'' = posField (PartialImages bt)"
  proof (rule impI)
    assume t: "Type bt = ''image_generation''"
    from dom_image_generation [OF t] fields_image_generation [OF t]
    show "dom (buildBuiltinTool bt)
          \<subseteq> {''type'', ''size'', ''quality'', ''output_format'', ''compression'',
              ''background'', ''partial_images''}
        \<and> buildBuiltinTool bt ''size'' = strField (ImageSize bt)
        \<and> buildBuiltinTool bt ''quality'' = strField (ImageQuality bt)
        \<and> buildBuiltinTool bt ''output_format'' = strField (ImageFormat bt)
        \<and> buildBuiltinTool bt ''compression'' = posField (ImageCompression bt)
        \<and> buildBuiltinTool bt ''background'' = strField (ImageBackground bt)
        \<and> buildBuiltinTool bt ''partial_images'' = posField (PartialImages bt)"
      by (rule conjI)
  qed
  have 8: "Type bt = ''computer_use_preview'' \<longrightarrow>
        dom (buildBuiltinTool bt)
          \<subseteq> {''type'', ''display_width'', ''display_height'', ''environment''}
        \<and> buildBuiltinTool bt ''display_width'' = posField (DisplayWidth bt)
        \<and> buildBuiltinTool bt ''display_height'' = posField (DisplayHeight bt)
        \<and> buildBuiltinTool bt ''environment'' = strField (Environment bt)"
  proof (rule impI)
    assume t: "Type bt = ''computer_use_preview''"
    from dom_computer_use [OF t] fields_computer_use [OF t]
    show "dom (buildBuiltinTool bt)
          \<subseteq> {''type'', ''display_width'', ''display_height'', ''environment''}
        \<and> buildBuiltinTool bt ''display_width'' = posField (DisplayWidth bt)
        \<and> buildBuiltinTool bt ''display_height'' = posField (DisplayHeight bt)
        \<and> buildBuiltinTool bt ''environment'' = strField (Environment bt)"
      by (rule conjI)
  qed
  have 9: "Type bt = ''shell'' \<longrightarrow> buildBuiltinTool bt = [''type'' \<mapsto> WString ''shell'']"
  proof (rule impI)
    assume t: "Type bt = ''shell''"
    from only_discriminator [OF disjI1, OF t]
    show "buildBuiltinTool bt = [''type'' \<mapsto> WString ''shell'']"
      unfolding t .
  qed
  have 10: "Type bt = ''apply_patch'' \<longrightarrow>
        buildBuiltinTool bt = [''type'' \<mapsto> WString ''apply_patch'']"
  proof (rule impI)
    assume t: "Type bt = ''apply_patch''"
    from only_discriminator [OF disjI2, OF disjI1, OF t]
    show "buildBuiltinTool bt = [''type'' \<mapsto> WString ''apply_patch'']"
      unfolding t .
  qed
  from 1 2 3 4 5 6 7 8 9 10 show ?thesis by (intro conjI)
qed

theorem buildBuiltinTool_fields_witness:
  "Type (emptyTool ''mcp'' \<lparr>ServerLabel := ''dice'', ImageSize := ''1024x1024'',
      DisplayWidth := 1024\<rparr> :: unit BuiltinTool) = ''mcp''
   \<and> dom (buildBuiltinTool (emptyTool ''mcp'' \<lparr>ServerLabel := ''dice'',
      ImageSize := ''1024x1024'', DisplayWidth := 1024\<rparr> :: unit BuiltinTool))
        \<subseteq> {''type'', ''server_label'', ''server_url'', ''server_description'',
            ''connector_id'', ''authorization'', ''require_approval'', ''allowed_tools''}
   \<and> buildBuiltinTool (emptyTool ''mcp'' \<lparr>ServerLabel := ''dice'',
      ImageSize := ''1024x1024'', DisplayWidth := 1024\<rparr> :: unit BuiltinTool)
        ''server_label'' = Some (WString ''dice'')
   \<and> buildBuiltinTool (emptyTool ''mcp'' \<lparr>ServerLabel := ''dice'',
      ImageSize := ''1024x1024'', DisplayWidth := 1024\<rparr> :: unit BuiltinTool)
        ''server_url'' = None
   \<and> buildBuiltinTool (emptyTool ''mcp'' \<lparr>ServerLabel := ''dice'',
      ImageSize := ''1024x1024'', DisplayWidth := 1024\<rparr> :: unit BuiltinTool)
        = [''type'' \<mapsto> WString ''mcp'', ''server_label'' \<mapsto> WString ''dice'']
   \<and> buildBuiltinTool (emptyTool ''shell'' \<lparr>Environment := ''browser''\<rparr> :: unit BuiltinTool)
        = [''type'' \<mapsto> WString ''shell'']"
proof -
  let ?bt = "emptyTool ''mcp'' \<lparr>ServerLabel := ''dice'', ImageSize := ''1024x1024'',
      DisplayWidth := 1024\<rparr> :: unit BuiltinTool"
  let ?sh = "emptyTool ''shell'' \<lparr>Environment := ''browser''\<rparr> :: unit BuiltinTool"
  have t: "Type ?bt = ''mcp''" and s: "Type ?sh = ''shell''"
    by (simp_all add: emptyTool_def)
  have l: "ServerLabel ?bt = ''dice''" and u: "ServerURL ?bt = []"
    by (simp_all add: emptyTool_def)
  have v: "buildBuiltinTool ?bt
        = [''type'' \<mapsto> WString ''mcp'', ''server_label'' \<mapsto> WString ''dice'']"
    by (simp add: buildBuiltinTool_def emptyTool_def setStr_def setPtr_def setList_def)
  note m = buildBuiltinTool_fields [of ?bt "\<lambda>x. True"]
  from m t
  have d: "dom (buildBuiltinTool ?bt)
        \<subseteq> {''type'', ''server_label'', ''server_url'', ''server_description'',
            ''connector_id'', ''authorization'', ''require_approval'', ''allowed_tools''}"
    by simp
  from m t have "buildBuiltinTool ?bt ''server_label'' = strField (ServerLabel ?bt)"
    by simp
  then have a: "buildBuiltinTool ?bt ''server_label'' = Some (WString ''dice'')"
    unfolding l by (simp add: strField_def)
  from m t have "buildBuiltinTool ?bt ''server_url'' = strField (ServerURL ?bt)"
    by simp
  then have b: "buildBuiltinTool ?bt ''server_url'' = None"
    unfolding u by (simp add: strField_def)
  from buildBuiltinTool_fields [of ?sh "\<lambda>x. True"] s
  have e: "buildBuiltinTool ?sh = [''type'' \<mapsto> WString ''shell'']"
    by simp
  from t d a b v e show ?thesis by (intro conjI)
qed

text \<open>
  C2 as stated does not hold of the code: \<open>buildBuiltinTool\<close> has no error result and no
  panic, and its switch has no default branch, so a tool with an unrecognised tag is
  translated to an object that carries the discriminator and nothing else.
\<close>

theorem buildBuiltinTool_unknown_tag_counterexample:
  "buildBuiltinTool (emptyTool ''bogus_tool'' \<lparr>ServerLabel := ''dice''\<rparr> :: unit BuiltinTool)
     = [''type'' \<mapsto> WString ''bogus_tool'']"
  by (simp add: buildBuiltinTool_def emptyTool_def)

text \<open>
  C2, amended. For every tool whose tag is not one of the eight recognised tags the
  translation does not fail: it returns the wire object whose only field is the
  discriminator \<open>type\<close>, holding the unrecognised tag; every other field of the struct
  is ignored.
\<close>

theorem buildBuiltinTool_unknown_tag:
  assumes "Type bt \<notin> set recognizedTags"
  shows "buildBuiltinTool bt = [''type'' \<mapsto> WString (Type bt)]"
  using assms by (rule only_discriminator [OF disjI2, OF disjI2])

theorem buildBuiltinTool_unknown_tag_witness:
  "''web-search'' \<notin> set recognizedTags
   \<and> buildBuiltinTool (emptyTool ''web-search'' \<lparr>UserLocation :=
        Some \<lparr>ul_Type = ''approximate'', ul_Country = ''US'', ul_City = [], ul_Region = [],
              ul_Timezone = []\<rparr>\<rparr> :: unit BuiltinTool)
     = [''type'' \<mapsto> WString ''web-search'']"
proof -
  let ?bt = "emptyTool ''web-search'' \<lparr>UserLocation :=
        Some \<lparr>ul_Type = ''approximate'', ul_Country = ''US'', ul_City = [], ul_Region = [],
              ul_Timezone = []\<rparr>\<rparr> :: unit BuiltinTool"
  have n: "''web-search'' \<notin> set recognizedTags"
    by (simp add: recognizedTags_def)
  have t: "Type ?bt = ''web-search''"
    by (simp add: emptyTool_def)
  from buildBuiltinTool_unknown_tag [of ?bt] n t
  have "buildBuiltinTool ?bt = [''type'' \<mapsto> WString ''web-search'']"
    by simp
  with n show ?thesis by (intro conjI)
qed

section \<open>Properties of the inbound decoder\<close>

lemma foldl_walkContent:
  "foldl walkContent (t, c) parts =
     (t @ concat (map partText parts), c @ concat (map partCitations parts))"
  by (induction parts arbitrary: t c)
    (simp_all add: walkContent_def partText_def partCitations_def)

lemma walkItem_append:
  "walkItem lib (t, c, tc) item =
     (t @ itemText item, c @ itemCitations item, tc @ itemToolCalls lib item)"
  by (simp add: walkItem_def itemToolCalls_def itemText_def itemCitations_def
      foldl_walkContent Let_def)

lemma foldl_walkItem:
  "foldl (walkItem lib) (t, c, tc) items =
     (t @ concat (map itemText items), c @ concat (map itemCitations items),
      tc @ concat (map (itemToolCalls lib) items))"
  by (induction items arbitrary: t c tc) (simp_all add: walkItem_append)

lemma parseResponsesResponse_ok:
  assumes "unmarshalResult lib body = Inr result" and "res_Error result = None"
  shows "parseResponsesResponse lib body =
     Inr \<lparr>Content = finalText result,
          ToolCalls = [],
          PromptTokens = InputTokens (res_Usage result),
          CompletionTokens = OutputTokens (res_Usage result),
          TotalTokens = u_TotalTokens (res_Usage result),
          FinishReason = [],
          ResponsesOutput =
            Some \<lparr>Text = finalText result,
                  Citations = concat (map itemCitations (res_Output result)),
                  ro_ToolCalls = concat (map (itemToolCalls lib) (res_Output result))\<rparr>\<rparr>"
  using assms
  by (simp add: parseResponsesResponse_def foldl_walkItem messageText_def finalText_def Let_def)

lemma parseResponsesResponse_Inr:
  "parseResponsesResponse lib body = Inr resp \<Longrightarrow>
   \<exists>result. unmarshalResult lib body = Inr result \<and> res_Error result = None"
  by (auto simp: parseResponsesResponse_def split: sum.splits option.splits prod.splits)

lemmas go_defs =
  goJSON_def decodeResult_def decodeOutputItem_def decodeContentPart_def
  decodeAnnotation_def decodeSafetyCheck_def decodeOperation_def decodeUsage_def
  decodeErrorObject_def decodeComputerAction_def decodeShellAction_def decodeChat_def
  bindE_def stringElem_def zeroUsage_def zeroOutputItem_def zeroContentPart_def
  zeroAnnotation_def zeroSafetyCheck_def

lemmas sample_defs =
  helloMessage_def helloItem_def mistypedBody_def oddItemsBody_def errorBody_def
  rateLimitError_def bothTextsBody_def onlyOutputTextBody_def madeUpItem_def
  badActionItem_def reasoningItem_def

lemma parseInt_7: "parseInt ''7'' = Some 7"
  by (simp add: parseInt_def isDigit_def Let_def)

lemma decode_errorBody:
  "unmarshalResult (goJSON noToolCalls) errorBody = Inr errorResult"
  by (simp add: sample_defs errorResult_def go_defs parseInt_7)

lemma decodeChat_errorBody:
  "unmarshalChat (goJSON noToolCalls) errorBody = Inr errorChat"
  by (simp add: sample_defs errorChat_def go_defs parseInt_7)

text \<open>
  C8 as stated does not hold of the code. The error object is looked at only after
  \<open>json.Unmarshal\<close> has decoded the whole body without error. In the body below the
  error object is well formed but a usage counter is a string, so \<open>Unmarshal\<close> fails
  and the decoder returns the parse error, whose code is empty: the backend's code
  \<open>rate_limit_exceeded\<close> is lost.
\<close>

theorem backend_error_counterexample:
  "parseResponsesResponse (goJSON noToolCalls) mistypedErrorBody
     = Inl \<lparr>Provider = ''openai'', Code = [],
            Message = ''parse error: '' @ typeError (JString ''7'') ''int'' @ [CHR 0x0A]
                        @ ''Body: '' @ render mistypedErrorBody,
            Err = None\<rparr>"
proof -
  have "unmarshalResult (goJSON noToolCalls) mistypedErrorBody
          = Inl (typeError (JString ''7'') ''int'')"
    by (simp add: mistypedErrorBody_def go_defs)
  then show ?thesis
    by (simp add: parseResponsesResponse_def parseError_def Name_def goJSON_def)
qed

text \<open>
  C8, amended. When the body decodes into the envelope and the envelope holds a
  top-level error object, the decoder returns one error carrying the provider name
  \<open>openai\<close>, the backend's error code and the backend's message, and no response: the
  result does not depend on the output items, the convenience text or the usage
  counters of the envelope, which are arbitrary here. When the body does not decode,
  the decoder returns one parse error carrying the provider name and an empty code,
  and no response. Both hold of \<open>parseResponsesResponse\<close> and of the chat-completions
  parser \<open>parseResponse\<close>.
\<close>

theorem backend_error_short_circuits:
  "(unmarshalResult lib body = Inr result \<and> res_Error result = Some e \<longrightarrow>
      parseResponsesResponse lib body
        = Inl \<lparr>Provider = ''openai'', Code = err_Code e, Message = err_Message e, Err = None\<rparr>)
   \<and> (unmarshalChat lib body = Inr chat \<and> chat_Error chat = Some e \<longrightarrow>
      parseResponse lib body
        = Inl \<lparr>Provider = ''openai'', Code = err_Code e, Message = err_Message e, Err = None\<rparr>)
   \<and> (unmarshalResult lib body = Inl err \<longrightarrow>
      parseResponsesResponse lib body
        = Inl \<lparr>Provider = ''openai'', Code = [],
               Message = ''parse error: '' @ err @ [CHR 0x0A] @ ''Body: '' @ bodyString lib body,
               Err = None\<rparr>)
   \<and> (unmarshalChat lib body = Inl err \<longrightarrow>
      parseResponse lib body
        = Inl \<lparr>Provider = ''openai'', Code = [],
               Message = ''parse error: '' @ err @ [CHR 0x0A] @ ''Body: '' @ bodyString lib body,
               Err = None\<rparr>)"
  by (simp add: parseResponsesResponse_def parseResponse_def backendError_def parseError_def
      Name_def)

theorem backend_error_short_circuits_witness:
  "parseResponsesResponse (goJSON noToolCalls) errorBody
     = Inl \<lparr>Provider = ''openai'', Code = ''rate_limit_exceeded'',
            Message = ''Rate limit reached'', Err = None\<rparr>
   \<and> parseResponse (goJSON noToolCalls) errorBody
     = Inl \<lparr>Provider = ''openai'', Code = ''rate_limit_exceeded'',
            Message = ''Rate limit reached'', Err = None\<rparr>
   \<and> parseResponsesResponse (goJSON noToolCalls) (JBool True)
     = Inl \<lparr>Provider = ''openai'', Code = [],
            Message = ''parse error: '' @ typeError (JBool True) ''struct'' @ [CHR 0x0A]
                        @ ''Body: '' @ ''true'',
            Err = None\<rparr>
   \<and> parseResponse (goJSON noToolCalls) (JBool True)
     = Inl \<lparr>Provider = ''openai'', Code = [],
            Message = ''parse error: '' @ typeError (JBool True) ''struct'' @ [CHR 0x0A]
                        @ ''Body: '' @ ''true'',
            Err = None\<rparr>"
proof -
  have e: "res_Error errorResult = Some rateLimitError"
    and c: "chat_Error errorChat = Some rateLimitError"
    by (simp_all add: errorResult_def errorChat_def)
  have 1: "parseResponsesResponse (goJSON noToolCalls) errorBody
     = Inl \<lparr>Provider = ''openai'', Code = ''rate_limit_exceeded'',
            Message = ''Rate limit reached'', Err = None\<rparr>
   \<and> parseResponse (goJSON noToolCalls) errorBody
     = Inl \<lparr>Provider = ''openai'', Code = ''rate_limit_exceeded'',
            Message = ''Rate limit reached'', Err = None\<rparr>"
    using backend_error_short_circuits
      [of "goJSON noToolCalls" errorBody errorResult rateLimitError errorChat]
      decode_errorBody decodeChat_errorBody e c
    by (simp add: rateLimitError_def)
  have u: "unmarshalResult (goJSON noToolCalls) (JBool True)
             = Inl (typeError (JBool True) ''struct'')"
    and v: "unmarshalChat (goJSON noToolCalls) (JBool True)
             = Inl (typeError (JBool True) ''struct'')"
    and b: "bodyString (goJSON noToolCalls) (JBool True) = ''true''"
    by (simp_all add: goJSON_def decodeResult_def decodeChat_def)
  have 2: "parseResponsesResponse (goJSON noToolCalls) (JBool True)
     = Inl \<lparr>Provider = ''openai'', Code = [],
            Message = ''parse error: '' @ typeError (JBool True) ''struct'' @ [CHR 0x0A]
                        @ ''Body: '' @ ''true'',
            Err = None\<rparr>
   \<and> parseResponse (goJSON noToolCalls) (JBool True)
     = Inl \<lparr>Provider = ''openai'', Code = [],
            Message = ''parse error: '' @ typeError (JBool True) ''struct'' @ [CHR 0x0A]
                        @ ''Body: '' @ ''true'',
            Err = None\<rparr>"
    using backend_error_short_circuits
      [of "goJSON noToolCalls" "JBool True" _ _ _ "typeError (JBool True) ''struct''"] u v
    unfolding b by simp
  from 1 2 show ?thesis by simp
qed

lemma decode_oddItemsBody:
  "unmarshalResult (goJSON noToolCalls) oddItemsBody = Inr oddResult"
  by (simp add: sample_defs oddResult_def go_defs)

lemma decode_bothTextsBody:
  "unmarshalResult (goJSON noToolCalls) bothTextsBody = Inr bothTextsResult"
  by (simp add: sample_defs bothTextsResult_def go_defs)

lemma decode_onlyOutputTextBody:
  "unmarshalResult (goJSON noToolCalls) onlyOutputTextBody = Inr onlyOutputTextResult"
  by (simp add: sample_defs onlyOutputTextResult_def go_defs)

lemma helloItem_contributes:
  "itemText helloItem = ''hello''" "itemCitations helloItem = []"
  "itemToolCalls lib helloItem = []"
  by (simp_all add: itemText_def itemCitations_def itemToolCalls_def walkItem_def
      walkContent_def partText_def partCitations_def helloItem_def zeroOutputItem_def)

lemma madeUpItem_contributes:
  "itemText madeUpItem = []" "itemCitations madeUpItem = []"
  "itemToolCalls lib madeUpItem = []"
  by (simp_all add: itemText_def itemCitations_def itemToolCalls_def walkItem_def
      madeUpItem_def zeroOutputItem_def)

lemma reasoningItem_contributes:
  "itemText reasoningItem = []" "itemCitations reasoningItem = []"
  "itemToolCalls lib reasoningItem = []"
  by (simp_all add: itemText_def itemCitations_def itemToolCalls_def walkItem_def
      reasoningItem_def zeroOutputItem_def)

lemma decode_oops:
  "unmarshalComputerAction (goJSON noToolCalls) (Some (JString ''oops''))
     = Inl (typeError (JString ''oops'') ''struct'')"
  by (simp add: goJSON_def decodeComputerAction_def)

lemma badActionItem_contributes:
  "itemText badActionItem = []" "itemCitations badActionItem = []"
  "itemToolCalls (goJSON noToolCalls) badActionItem = [baseToolCall badActionItem]"
proof -
  have t: "item_Type badActionItem = ''computer_call''"
    and a: "item_Action badActionItem = Some (JString ''oops'')"
    and c: "item_PendingSafetyChecks badActionItem = []"
    by (simp_all add: badActionItem_def zeroOutputItem_def)
  show "itemText badActionItem = []" "itemCitations badActionItem = []"
    by (simp_all add: itemText_def itemCitations_def t)
  show "itemToolCalls (goJSON noToolCalls) badActionItem = [baseToolCall badActionItem]"
    by (simp add: itemToolCalls_def walkItem_def Let_def t a c decode_oops)
qed

lemma messageText_hello: "messageText [helloItem] = ''hello''"
  by (simp add: messageText_def helloItem_contributes)

text \<open>
  C9. When the body decodes and holds no error object, the decoder returns a response
  whose text is the text collected from the message items whenever that text is not
  empty, and the convenience field \<open>output_text\<close> only when the walk collected nothing.
  The collected text \<open>messageText\<close> is the concatenation, in order, of the texts of the
  \<open>output_text\<close> and \<open>text\<close> parts of the message items.
\<close>

theorem output_text_only_fallback:
  assumes "unmarshalResult lib body = Inr result" and "res_Error result = None"
  shows "\<exists>resp. parseResponsesResponse lib body = Inr resp
           \<and> (messageText (res_Output result) \<noteq> [] \<longrightarrow>
                Content resp = messageText (res_Output result))
           \<and> (messageText (res_Output result) = [] \<longrightarrow>
                Content resp = res_OutputText result)"
  using parseResponsesResponse_ok [OF assms] by (simp add: finalText_def)

theorem output_text_only_fallback_witness:
  "(\<exists>resp. parseResponsesResponse (goJSON noToolCalls) bothTextsBody = Inr resp
        \<and> Content resp = ''hello'')
   \<and> (\<exists>resp. parseResponsesResponse (goJSON noToolCalls) onlyOutputTextBody = Inr resp
        \<and> Content resp = ''convenience'')"
proof -
  have e1: "res_Error bothTextsResult = None" and e2: "res_Error onlyOutputTextResult = None"
    by (simp_all add: bothTextsResult_def onlyOutputTextResult_def)
  have m1: "messageText (res_Output bothTextsResult) = ''hello''"
    by (simp add: bothTextsResult_def messageText_hello)
  have m2: "messageText (res_Output onlyOutputTextResult) = []"
    by (simp add: onlyOutputTextResult_def messageText_def reasoningItem_contributes)
  have o2: "res_OutputText onlyOutputTextResult = ''convenience''"
    by (simp add: onlyOutputTextResult_def)
  from output_text_only_fallback [OF decode_bothTextsBody e1]
  have 1: "\<exists>resp. parseResponsesResponse (goJSON noToolCalls) bothTextsBody = Inr resp
        \<and> Content resp = ''hello''"
    unfolding m1 by simp
  from output_text_only_fallback [OF decode_onlyOutputTextBody e2]
  have 2: "\<exists>resp. parseResponsesResponse (goJSON noToolCalls) onlyOutputTextBody = Inr resp
        \<and> Content resp = ''convenience''"
    unfolding m2 o2 by simp
  from 1 2 show ?thesis by (rule conjI)
qed

text \<open>
  C10. Whenever \<open>parseResponsesResponse\<close> returns a response, that response has a
  \<open>ResponsesOutput\<close> (the pointer is not \<open>nil\<close>) and its \<open>Content\<close> is the \<open>Text\<close> of that
  output. The decoder returns a response exactly when the body decodes and holds no
  error object.
\<close>

theorem content_equals_responses_text:
  assumes "parseResponsesResponse lib body = Inr resp"
  shows "ResponsesOutput resp \<noteq> None
       \<and> map_option Text (ResponsesOutput resp) = Some (Content resp)"
proof -
  from parseResponsesResponse_Inr [OF assms] obtain result
    where u: "unmarshalResult lib body = Inr result" and e: "res_Error result = None"
    by auto
  from parseResponsesResponse_ok [OF u e] assms show ?thesis by auto
qed

theorem content_equals_responses_text_witness:
  "parseResponsesResponse (goJSON noToolCalls) bothTextsBody
     = Inr \<lparr>Content = ''hello'', ToolCalls = [], PromptTokens = 0, CompletionTokens = 0,
            TotalTokens = 0, FinishReason = [],
            ResponsesOutput = Some \<lparr>Text = ''hello'', Citations = [], ro_ToolCalls = []\<rparr>\<rparr>
   \<and> map_option Text (Some \<lparr>Text = ''hello'', Citations = [], ro_ToolCalls = []\<rparr>)
     = Some ''hello''"
proof -
  have e1: "res_Error bothTextsResult = None"
    by (simp add: bothTextsResult_def)
  have p: "parseResponsesResponse (goJSON noToolCalls) bothTextsBody
     = Inr \<lparr>Content = ''hello'', ToolCalls = [], PromptTokens = 0, CompletionTokens = 0,
            TotalTokens = 0, FinishReason = [],
            ResponsesOutput = Some \<lparr>Text = ''hello'', Citations = [], ro_ToolCalls = []\<rparr>\<rparr>"
    unfolding parseResponsesResponse_ok [OF decode_bothTextsBody e1]
    by (simp add: finalText_def bothTextsResult_def messageText_hello zeroUsage_def
        helloItem_contributes)
  from content_equals_responses_text [OF p] p show ?thesis by simp
qed

text \<open>
  C4 as stated does not hold of the code. The body is decoded by one call of
  \<open>json.Unmarshal\<close> into a typed envelope, so a tool-call item with a field of the wrong
  JSON type (here a numeric \<open>status\<close>) makes that call fail, and the decoder returns a
  parse error for the whole body: the text of the well-formed message item is lost.
\<close>

theorem malformed_item_counterexample:
  "parseResponsesResponse (goJSON noToolCalls) mistypedBody
     = Inl (parseError (typeError (JNumber ''5'') ''string'') (render mistypedBody))"
proof -
  have "unmarshalResult (goJSON noToolCalls) mistypedBody
          = Inl (typeError (JNumber ''5'') ''string'')"
    by (simp add: sample_defs go_defs)
  then show ?thesis
    by (simp add: parseResponsesResponse_def goJSON_def)
qed

text \<open>
  C4, amended. When the body decodes into the envelope and holds no error object, the
  decoder returns a response, with no error, in which every output item has been
  handled on its own: the text, the citations and the tool calls are the
  concatenations of what each item contributes. An item whose type is neither
  \<open>message\<close> nor one of the eight tool-call types contributes nothing (it is skipped);
  a \<open>computer_call\<close> or \<open>shell_call\<close> item whose action payload fails to decode
  contributes its tool call without the action (the item is kept). Neither stops the
  decoding of the other items.
\<close>

theorem items_decoded_independently:
  assumes "unmarshalResult lib body = Inr result" and "res_Error result = None"
  shows "(\<exists>resp ro. parseResponsesResponse lib body = Inr resp
            \<and> ResponsesOutput resp = Some ro
            \<and> Content resp = finalText result
            \<and> Citations ro = concat (map itemCitations (res_Output result))
            \<and> ro_ToolCalls ro = concat (map (itemToolCalls lib) (res_Output result)))
       \<and> (\<forall>item. item_Type item \<noteq> ''message'' \<and> item_Type item \<notin> set toolCallTypes \<longrightarrow>
            itemText item = [] \<and> itemCitations item = [] \<and> itemToolCalls lib item = [])
       \<and> (\<forall>item err. item_Type item = ''computer_call''
              \<and> unmarshalComputerAction lib (item_Action item) = Inl err \<longrightarrow>
            (\<exists>tc. itemToolCalls lib item = [tc] \<and> tc_ID tc = item_ID item
               \<and> tc_Action tc = None))
       \<and> (\<forall>item err. item_Type item = ''shell_call''
              \<and> unmarshalShellAction lib (item_Action item) = Inl err \<longrightarrow>
            (\<exists>tc. itemToolCalls lib item = [tc] \<and> tc_ID tc = item_ID item
               \<and> tc_ShellAction tc = None))"
proof -
  have a: "\<exists>resp ro. parseResponsesResponse lib body = Inr resp
            \<and> ResponsesOutput resp = Some ro
            \<and> Content resp = finalText result
            \<and> Citations ro = concat (map itemCitations (res_Output result))
            \<and> ro_ToolCalls ro = concat (map (itemToolCalls lib) (res_Output result))"
    using parseResponsesResponse_ok [OF assms] by simp
  have b: "\<forall>item. item_Type item \<noteq> ''message'' \<and> item_Type item \<notin> set toolCallTypes \<longrightarrow>
            itemText item = [] \<and> itemCitations item = [] \<and> itemToolCalls lib item = []"
    by (simp add: itemText_def itemCitations_def itemToolCalls_def walkItem_def
        toolCallTypes_def)
  have c: "\<forall>item err. item_Type item = ''computer_call''
              \<and> unmarshalComputerAction lib (item_Action item) = Inl err \<longrightarrow>
            (\<exists>tc. itemToolCalls lib item = [tc] \<and> tc_ID tc = item_ID item
               \<and> tc_Action tc = None)"
    by (auto simp: itemToolCalls_def walkItem_def Let_def baseToolCall_def)
  have d: "\<forall>item err. item_Type item = ''shell_call''
              \<and> unmarshalShellAction lib (item_Action item) = Inl err \<longrightarrow>
            (\<exists>tc. itemToolCalls lib item = [tc] \<and> tc_ID tc = item_ID item
               \<and> tc_ShellAction tc = None)"
    by (auto simp: itemToolCalls_def walkItem_def Let_def baseToolCall_def)
  from a b c d show ?thesis by (intro conjI)
qed

theorem items_decoded_independently_witness:
  "unmarshalResult (goJSON noToolCalls) oddItemsBody = Inr oddResult
   \<and> res_Error oddResult = None
   \<and> unmarshalComputerAction (goJSON noToolCalls) (item_Action badActionItem)
       = Inl (typeError (JString ''oops'') ''struct'')
   \<and> (\<exists>resp ro. parseResponsesResponse (goJSON noToolCalls) oddItemsBody = Inr resp
         \<and> ResponsesOutput resp = Some ro
         \<and> Content resp = ''hello''
         \<and> Citations ro = []
         \<and> ro_ToolCalls ro = [baseToolCall badActionItem])"
proof -
  have e: "res_Error oddResult = None"
    by (simp add: oddResult_def)
  have u: "unmarshalComputerAction (goJSON noToolCalls) (item_Action badActionItem)
       = Inl (typeError (JString ''oops'') ''struct'')"
    by (simp add: badActionItem_def zeroOutputItem_def decode_oops)
  have f: "finalText oddResult = ''hello''"
    by (simp add: finalText_def oddResult_def messageText_def helloItem_contributes
        madeUpItem_contributes badActionItem_contributes)
  have c: "concat (map itemCitations (res_Output oddResult)) = []"
    by (simp add: oddResult_def helloItem_contributes madeUpItem_contributes
        badActionItem_contributes)
  have t: "concat (map (itemToolCalls (goJSON noToolCalls)) (res_Output oddResult))
         = [baseToolCall badActionItem]"
    by (simp add: oddResult_def helloItem_contributes madeUpItem_contributes
        badActionItem_contributes)
  from items_decoded_independently [OF decode_oddItemsBody e]
  have p: "\<exists>resp ro. parseResponsesResponse (goJSON noToolCalls) oddItemsBody = Inr resp
         \<and> ResponsesOutput resp = Some ro
         \<and> Content resp = ''hello''
         \<and> Citations ro = []
         \<and> ro_ToolCalls ro = [baseToolCall badActionItem]"
    unfolding f c t by (rule conjunct1)
  from decode_oddItemsBody e u p show ?thesis by (intro conjI)
qed

section \<open>Properties of the orchestrator\<close>

lemma sends_append: "sends (xs @ ys) = sends xs @ sends ys"
  by (induction xs rule: sends.induct) simp_all

lemma send_fails:
  assumes "alwaysFails env"
  obtains err w' where
    "send env req s = (Inl err, s\<lparr>world := w', trace := trace s @ [SendAttempt (req_Model req)]\<rparr>)"
proof -
  from assms have "isl (fst (Send env (world s) req))"
    by (simp add: alwaysFails_def)
  then obtain err w' where "Send env (world s) req = (Inl err, w')"
    by (cases "Send env (world s) req") (auto simp: isl_def)
  then have "send env req s
      = (Inl err, s\<lparr>world := w', trace := trace s @ [SendAttempt (req_Model req)]\<rparr>)"
    by (simp add: send_def)
  then show ?thesis by (rule that)
qed

lemma send_trace:
  "send env req s = (r, s') \<Longrightarrow>
   sends (trace s') = sends (trace s) @ [req_Model req] \<and> totalRetries s' = totalRetries s"
  by (auto simp: send_def sends_append split: prod.splits)

lemma gate_trace: "sends (trace (gate env s)) = sends (trace s)"
  "totalRetries (gate env s) = totalRetries s"
  by (simp_all add: gate_def sends_append)

lemma sleep_trace: "sends (trace (sleep env d s)) = sends (trace s)"
  "totalRetries (sleep env d s) = totalRetries s"
  by (simp_all add: sleep_def sends_append)

lemma legacyRetry_fails:
  assumes "alwaysFails env"
  shows "nat (n - attempt) = k \<Longrightarrow> attempt \<le> n \<Longrightarrow> 0 \<le> attempt \<Longrightarrow>
    \<exists>err s'. legacyRetry env n req attempt s = (Inl err, s')
      \<and> sends (trace s') = sends (trace s) @ replicate (Suc k) (req_Model req)
      \<and> totalRetries s' = totalRetries s + (if attempt > 0 then int k + 1 else int k)"
proof (induction k arbitrary: attempt s)
  case 0
  define s2 where "s2 = gate env (if attempt > 0
                then sleep env (backoff attempt) (s\<lparr>totalRetries := totalRetries s + 1\<rparr>)
                else s)"
  obtain err w' where f: "send env req s2
     = (Inl err, s2\<lparr>world := w', trace := trace s2 @ [SendAttempt (req_Model req)]\<rparr>)"
    using send_fails [OF assms] by blast
  from 0 have "\<not> attempt + 1 \<le> n" by simp
  then have "legacyRetry env n req attempt s
     = (Inl err, s2\<lparr>world := w', trace := trace s2 @ [SendAttempt (req_Model req)]\<rparr>)"
    using f by (subst legacyRetry.simps) (simp add: s2_def Let_def)
  moreover have "sends (trace s2) = sends (trace s)"
    and "totalRetries s2 = totalRetries s + (if attempt > 0 then 1 else 0)"
    by (simp_all add: s2_def gate_trace sleep_trace)
  ultimately show ?case by (simp add: sends_append)
next
  case (Suc k)
  define s2 where "s2 = gate env (if attempt > 0
                then sleep env (backoff attempt) (s\<lparr>totalRetries := totalRetries s + 1\<rparr>)
                else s)"
  obtain err w' where f: "send env req s2
     = (Inl err, s2\<lparr>world := w', trace := trace s2 @ [SendAttempt (req_Model req)]\<rparr>)"
    using send_fails [OF assms] by blast
  define s3 where "s3 = s2\<lparr>world := w', trace := trace s2 @ [SendAttempt (req_Model req)]\<rparr>"
  from Suc.prems have le: "attempt + 1 \<le> n" by simp
  then have unfold: "legacyRetry env n req attempt s = legacyRetry env n req (attempt + 1) s3"
    using f by (subst legacyRetry.simps) (simp add: s2_def s3_def Let_def)
  from Suc.prems have "nat (n - (attempt + 1)) = k" by simp
  from Suc.IH [OF this le, of s3] Suc.prems
  obtain err' s' where r: "legacyRetry env n req (attempt + 1) s3 = (Inl err', s')"
    and t: "sends (trace s') = sends (trace s3) @ replicate (Suc k) (req_Model req)"
    and c: "totalRetries s' = totalRetries s3 + (int k + 1)"
    by auto
  have "sends (trace s3) = sends (trace s) @ [req_Model req]"
    and "totalRetries s3 = totalRetries s + (if attempt > 0 then 1 else 0)"
    by (simp_all add: s3_def s2_def gate_trace sleep_trace sends_append)
  with unfold r t c show ?case
    by (simp add: replicate_app_Cons_same)
qed

lemma attemptModel_legacy_fails:
  assumes "alwaysFails env" "retryConfig b = None" "maxRetries b > 0"
  shows "\<exists>err s'. attemptModel env b req s = (Inl err, s')
      \<and> sends (trace s') = sends (trace s) @ replicate (nat (maxRetries b) + 1) (req_Model req)
      \<and> totalRetries s' = totalRetries s + maxRetries b"
  using legacyRetry_fails [OF assms(1), of "maxRetries b" 0 "nat (maxRetries b)" req s] assms(2,3)
  by (auto simp: attemptModel_def)

lemma tryModels_legacy_fails:
  assumes "alwaysFails env" "retryConfig b = None" "maxRetries b > 0"
  shows "\<exists>s'. tryModels env b ms lastErr s
        = (failed (meta_Error (fst (tryModels env b ms lastErr s))) (model b) (totalRetries s'), s')
      \<and> sends (trace s') = sends (trace s) @ concat (map (replicate (nat (maxRetries b) + 1)) ms)
      \<and> totalRetries s' = totalRetries s + maxRetries b * int (length ms)
      \<and> (ms \<noteq> [] \<or> lastErr \<noteq> None \<longrightarrow> meta_Error (fst (tryModels env b ms lastErr s)) \<noteq> None)"
proof (induction ms arbitrary: lastErr s)
  case Nil
  then show ?case by (simp add: failed_def)
next
  case (Cons m ms)
  obtain err s1 where a: "attemptModel env b \<lparr>req_Model = m, req_Payload = payload b\<rparr> s = (Inl err, s1)"
    and t: "sends (trace s1) = sends (trace s) @ replicate (nat (maxRetries b) + 1) m"
    and c: "totalRetries s1 = totalRetries s + maxRetries b"
    using attemptModel_legacy_fails [OF assms, of "\<lparr>req_Model = m, req_Payload = payload b\<rparr>" s]
    by auto
  from a have u: "tryModels env b (m # ms) lastErr s = tryModels env b ms (Some err) s1"
    by simp
  from Cons.IH [of "Some err" s1] show ?case
    unfolding u t c by (auto simp: algebra_simps)
qed

lemma legacyRetry_sends:
  "nat (n - attempt) = k \<Longrightarrow> legacyRetry env n req attempt s = (r, s') \<Longrightarrow>
   \<exists>j. sends (trace s') = sends (trace s) @ replicate (Suc j) (req_Model req)"
proof (induction k arbitrary: attempt s)
  case 0
  define s2 where "s2 = gate env (if attempt > 0
                then sleep env (backoff attempt) (s\<lparr>totalRetries := totalRetries s + 1\<rparr>)
                else s)"
  obtain r3 s3 where f: "send env req s2 = (r3, s3)"
    by (cases "send env req s2")
  from 0 have n: "\<not> attempt + 1 \<le> n" by simp
  have "legacyRetry env n req attempt s = (r3, s3)"
    using f n by (subst legacyRetry.simps) (simp add: s2_def Let_def split: sum.splits)
  with 0 have "s' = s3" by simp
  moreover have "sends (trace s3) = sends (trace s2) @ [req_Model req]"
    using send_trace [OF f] by simp
  moreover have "sends (trace s2) = sends (trace s)"
    by (simp add: s2_def gate_trace sleep_trace)
  ultimately have "sends (trace s') = sends (trace s) @ replicate (Suc 0) (req_Model req)"
    by simp
  then show ?case by blast
next
  case (Suc k)
  define s2 where "s2 = gate env (if attempt > 0
                then sleep env (backoff attempt) (s\<lparr>totalRetries := totalRetries s + 1\<rparr>)
                else s)"
  obtain r3 s3 where f: "send env req s2 = (r3, s3)"
    by (cases "send env req s2")
  have t3: "sends (trace s3) = sends (trace s) @ [req_Model req]"
    using send_trace [OF f] by (simp add: s2_def gate_trace sleep_trace)
  from Suc.prems have le: "attempt + 1 \<le> n" by simp
  show ?case
  proof (cases r3)
    case (Inr resp)
    then have "legacyRetry env n req attempt s = (r3, s3)"
      using f by (subst legacyRetry.simps) (simp add: s2_def Let_def)
    with Suc.prems have "s' = s3" by simp
    with t3 have "sends (trace s') = sends (trace s) @ replicate (Suc 0) (req_Model req)"
      by simp
    then show ?thesis by blast
  next
    case (Inl err)
    then have "legacyRetry env n req attempt s = legacyRetry env n req (attempt + 1) s3"
      using f le by (subst legacyRetry.simps) (simp add: s2_def Let_def)
    with Suc.prems have r: "legacyRetry env n req (attempt + 1) s3 = (r, s')" by simp
    from Suc.prems have "nat (n - (attempt + 1)) = k" by simp
    from Suc.IH [OF this r] obtain j
      where "sends (trace s') = sends (trace s3) @ replicate (Suc j) (req_Model req)"
      by blast
    with t3 have "sends (trace s') = sends (trace s) @ replicate (Suc (Suc j)) (req_Model req)"
      by (simp add: replicate_app_Cons_same)
    then show ?thesis by blast
  qed
qed

lemma attemptModel_sends:
  assumes "retryConfig b = None" and "attemptModel env b req s = (r, s')"
  shows "\<exists>j. sends (trace s') = sends (trace s) @ replicate (Suc j) (req_Model req)"
proof (cases "maxRetries b > 0")
  case True
  with assms have "legacyRetry env (maxRetries b) req 0 s = (r, s')"
    by (simp add: attemptModel_def)
  from legacyRetry_sends [OF refl this] show ?thesis .
next
  case False
  with assms have "send env req (gate env s) = (r, s')"
    by (simp add: attemptModel_def)
  from send_trace [OF this]
  have "sends (trace s') = sends (trace s) @ replicate (Suc 0) (req_Model req)"
    by (simp add: gate_trace)
  then show ?thesis by blast
qed

text \<open>
  C3. A builder with a primary model and two fallback models, no smart-retry
  configuration and the legacy retry count 1 (two attempts per model), run against a
  provider whose \<open>Send\<close> fails on every call: the provider is called exactly six times,
  twice for each model in chain order; the returned metadata carries an error, names
  the primary model (not the last model tried) and counts three retries.
\<close>

theorem exhausted_chain_six_attempts:
  assumes "alwaysFails env" and "retryConfig b = None" and "maxRetries b = 1"
    and "fallbacks b = [m1, m2]"
  shows "sends (trace (snd (SendWithMeta env b w))) = [model b, model b, m1, m1, m2, m2]
       \<and> meta_Model (fst (SendWithMeta env b w)) = model b
       \<and> meta_Error (fst (SendWithMeta env b w)) \<noteq> None
       \<and> meta_Retries (fst (SendWithMeta env b w)) = 3"
proof -
  from assms(3) have pos: "maxRetries b > 0" by simp
  from tryModels_legacy_fails [OF assms(1,2) pos, of "[model b, m1, m2]" None "start w"]
  obtain s' where
    r: "tryModels env b [model b, m1, m2] None (start w)
        = (failed (meta_Error (fst (tryModels env b [model b, m1, m2] None (start w))))
             (model b) (totalRetries s'), s')"
    and t: "sends (trace s') = sends (trace (start w))
              @ concat (map (replicate (nat (maxRetries b) + 1)) [model b, m1, m2])"
    and c: "totalRetries s' = totalRetries (start w) + maxRetries b * int (length [model b, m1, m2])"
    and e: "meta_Error (fst (tryModels env b [model b, m1, m2] None (start w))) \<noteq> None"
    by auto
  have sw: "SendWithMeta env b w = tryModels env b [model b, m1, m2] None (start w)"
    by (simp add: SendWithMeta_def assms(4))
  have 1: "sends (trace (snd (SendWithMeta env b w))) = [model b, model b, m1, m1, m2, m2]"
    unfolding sw by (subst r) (simp add: t assms(3) start_def numeral_2_eq_2)
  have 2: "meta_Model (fst (SendWithMeta env b w)) = model b"
    unfolding sw by (subst r) (simp add: failed_def)
  have 3: "meta_Error (fst (SendWithMeta env b w)) \<noteq> None"
    unfolding sw by (rule e)
  have 4: "meta_Retries (fst (SendWithMeta env b w)) = 3"
    unfolding sw by (subst r) (simp add: failed_def c assms(3) start_def)
  from 1 2 3 4 show ?thesis by (intro conjI)
qed

lemma failingEnv_fails: "alwaysFails failingEnv"
  by (simp add: alwaysFails_def failingEnv_def)

lemma failingEnv_run:
  "meta_Error (fst (SendWithMeta failingEnv threeModels 0)) = Some (5, ''gemini-2.5-pro'')"
  by (simp add: SendWithMeta_def threeModels_def attemptModel_def legacyRetry.simps
      send_def gate_def sleep_def failingEnv_def start_def failed_def Let_def
      eval_nat_numeral)

theorem exhausted_chain_six_attempts_witness:
  "alwaysFails failingEnv
   \<and> sends (trace (snd (SendWithMeta failingEnv threeModels 0)))
       = [''gpt-5.2'', ''gpt-5.2'', ''claude-sonnet-4.5'', ''claude-sonnet-4.5'',
          ''gemini-2.5-pro'', ''gemini-2.5-pro'']
   \<and> meta_Model (fst (SendWithMeta failingEnv threeModels 0)) = ''gpt-5.2''
   \<and> meta_Error (fst (SendWithMeta failingEnv threeModels 0)) = Some (5, ''gemini-2.5-pro'')
   \<and> meta_Retries (fst (SendWithMeta failingEnv threeModels 0)) = 3"
  using exhausted_chain_six_attempts
    [OF failingEnv_fails, of threeModels "''claude-sonnet-4.5''" "''gemini-2.5-pro''" 0]
    failingEnv_fails failingEnv_run
  by (simp add: threeModels_def)

text \<open>
  C6. Wherever the walk over the chain stands, if the attempt for the current model
  returns a response and the configured validators reject its content, the walk ends
  there: the result is the failure carrying the validation error, and it and the final
  state are those reached right after that attempt, whatever models remain in the
  chain. With the legacy or no retry discipline the provider attempts made from that
  point on are attempts for the current model only.
\<close>

theorem validation_rejection_is_terminal:
  assumes "attemptModel env b \<lparr>req_Model = m, req_Payload = payload b\<rparr> s = (Inr resp, s')"
    and "validators b \<noteq> []"
    and "runValidators env (validators b) (Content resp) = Inl validationErr"
  shows "tryModels env b (m # rest) lastErr s
           = (failed (Some validationErr) m (totalRetries s'), s')
       \<and> (retryConfig b = None \<longrightarrow>
            (\<exists>j. sends (trace (snd (tryModels env b (m # rest) lastErr s)))
                   = sends (trace s) @ replicate (Suc j) m))"
proof -
  have 1: "tryModels env b (m # rest) lastErr s
           = (failed (Some validationErr) m (totalRetries s'), s')"
    using assms by simp
  have 2: "retryConfig b = None \<longrightarrow>
            (\<exists>j. sends (trace (snd (tryModels env b (m # rest) lastErr s)))
                   = sends (trace s) @ replicate (Suc j) m)"
  proof
    assume "retryConfig b = None"
    from attemptModel_sends [OF this assms(1)]
    show "\<exists>j. sends (trace (snd (tryModels env b (m # rest) lastErr s)))
                   = sends (trace s) @ replicate (Suc j) m"
      unfolding 1 by simp
  qed
  from 1 2 show ?thesis by (rule conjI)
qed

lemma rejecting_attempt:
  "attemptModel rejectingEnv validated \<lparr>req_Model = ''gpt-5.2'', req_Payload = payload validated\<rparr>
     (start 0)
     = (Inr unsafeResponse,
        \<lparr>world = Suc 0, trace = [RateLimitWait, SendAttempt ''gpt-5.2''], totalRetries = 0,
         retries = 0\<rparr>)"
  by (simp add: attemptModel_def validated_def rejectingEnv_def send_def gate_def start_def)

theorem validation_rejection_is_terminal_witness:
  "SendWithMeta rejectingEnv validated 0
     = (failed (Some ''rejected'') ''gpt-5.2'' 0,
        \<lparr>world = Suc 0, trace = [RateLimitWait, SendAttempt ''gpt-5.2''], totalRetries = 0,
         retries = 0\<rparr>)
   \<and> sends [RateLimitWait, SendAttempt ''gpt-5.2''] = [''gpt-5.2'']"
proof -
  have v: "validators validated \<noteq> []"
    by (simp add: validated_def)
  have r: "runValidators rejectingEnv (validators validated) (Content unsafeResponse)
             = Inl ''rejected''"
    by (simp add: rejectingEnv_def unsafeResponse_def)
  from validation_rejection_is_terminal [OF rejecting_attempt v r, of "fallbacks validated" None]
  have "SendWithMeta rejectingEnv validated 0
     = (failed (Some ''rejected'') ''gpt-5.2'' 0,
        \<lparr>world = Suc 0, trace = [RateLimitWait, SendAttempt ''gpt-5.2''], totalRetries = 0,
         retries = 0\<rparr>)"
    by (simp add: SendWithMeta_def validated_def)
  then show ?thesis by simp
qed


end
